theory Spec2Isabelle
  imports Main "HOL-Library.AList"
begin

text \<open>
  A shallow embedding of the extraction pipeline of the manifest generator: the Type
  Normalizer (\<open>parseTypeScriptType\<close>), the Name Classifier (\<open>guessDescription\<close>,
  \<open>categorizeFunction\<close>), the Symbol Filter (\<open>isValidToolFunction\<close>), the Source Scanner
  (\<open>extractTools\<close>), the Schema Scanner (\<open>extractResources\<close>) and the Pipeline
  Orchestrator (\<open>generateMCPManifest\<close>).

  The repository holds the pipeline twice: as a module (a TypeScript file and its compiled
  JavaScript, which agree) and as a command-line program with more guards.  A definition
  without suffix is the module's copy; the suffix \<open>_cli\<close> marks the command-line copy
  where the two differ.

  An \<open>async\<close> function is modelled by what its promise settles to: a rejection is the
  left summand of a sum (or \<open>Rejected\<close>), a \<open>throw\<close> caught by a \<open>try\<close> is a branch of
  the enclosing definition.  The mutable accumulators of the loops (\<open>tools\<close>,
  \<open>processedFunctions\<close>, \<open>resources\<close>) are passed as state.  Console output and the time
  stamp of the manifest are left out.
\<close>

section \<open>Strings of the source language\<close>

text \<open>
  A JavaScript string is modelled as a \<^typ>\<open>string\<close>; one \<^typ>\<open>char\<close> stands for one code
  unit below 256 (the Latin-1 range).  The helpers below are the \<open>String.prototype\<close> methods
  and the regular expressions that the extraction code calls, each with the behaviour the
  language gives it on that range.
\<close>

definition startsWith :: "string \<Rightarrow> string \<Rightarrow> bool" where
  "startsWith s p = (take (length p) s = p)"

primrec includesStr :: "string \<Rightarrow> string \<Rightarrow> bool" where
  "includesStr [] p = (p = [])"
| "includesStr (c # cs) p = (startsWith (c # cs) p \<or> includesStr cs p)"

definition isWhiteSpace :: "char \<Rightarrow> bool" where
  \<comment> \<open>\<open>\s\<close> and \<open>trim\<close>: TAB, LF, VT, FF, CR, SP, NBSP\<close>
  "isWhiteSpace c = ((of_char c :: nat) \<in> {9, 10, 11, 12, 13, 32, 160})"

definition isLineTerminator :: "char \<Rightarrow> bool" where
  \<comment> \<open>what \<open>.\<close> does not match\<close>
  "isLineTerminator c = ((of_char c :: nat) \<in> {10, 13})"

definition trim :: "string \<Rightarrow> string" where
  "trim s = rev (dropWhile isWhiteSpace (rev (dropWhile isWhiteSpace s)))"

definition toLowerChar :: "char \<Rightarrow> char" where
  "toLowerChar c =
     (let n = (of_char c :: nat)
      in if (65 \<le> n \<and> n \<le> 90) \<or> (192 \<le> n \<and> n \<le> 222 \<and> n \<noteq> 215)
         then char_of (n + 32) else c)"

definition toLowerCase :: "string \<Rightarrow> string" where
  "toLowerCase s = map toLowerChar s"

definition foldAscii :: "char \<Rightarrow> char" where
  \<comment> \<open>the case folding of the \<open>i\<close> flag, which on this range only identifies A-Z with a-z\<close>
  "foldAscii c =
     (let n = (of_char c :: nat) in if 65 \<le> n \<and> n \<le> 90 then char_of (n + 32) else c)"

definition startsWithI :: "string \<Rightarrow> string \<Rightarrow> bool" where
  "startsWithI s p = (length p \<le> length s \<and> map foldAscii (take (length p) s) = map foldAscii p)"

definition matchPrefix :: "string list \<Rightarrow> string \<Rightarrow> string option" where
  \<comment> \<open>\<open>name.match(/^(a|b|...)/i)\<close>: the first alternative that matches at position 0\<close>
  "matchPrefix alts s = find (startsWithI s) alts"

definition stripPrefix :: "string list \<Rightarrow> string \<Rightarrow> string" where
  \<comment> \<open>\<open>name.replace(/^(a|b|...)/i, '')\<close>\<close>
  "stripPrefix alts s = (case matchPrefix alts s of None \<Rightarrow> s | Some p \<Rightarrow> drop (length p) s)"

definition join :: "string \<Rightarrow> string list \<Rightarrow> string" where
  "join sep xs = (case xs of [] \<Rightarrow> [] | y # ys \<Rightarrow> y @ concat (map (\<lambda>z. sep @ z) ys))"

definition digit :: "nat \<Rightarrow> char" where
  "digit d = char_of (48 + d)"

function showNat :: "nat \<Rightarrow> string" where
  "showNat n = (if n < 10 then [digit n] else showNat (n div 10) @ [digit (n mod 10)])"
  by pat_completeness auto
termination
  by (relation "measure id") auto

declare showNat.simps [simp del]

subsection \<open>Objects used as dictionaries\<close>

text \<open>
  The scanners build dictionaries with \<open>obj[key] = {...}\<close> on an object literal.  Such an
  object is an association list in the order in which \<open>Object.keys\<close> lists it: keys that
  are array indices first, in ascending order, then the other keys in the order of their
  first assignment.  Assigning an object to the key \<open>__proto__\<close> replaces the prototype
  and adds no key.
\<close>

definition isDigit :: "char \<Rightarrow> bool" where
  "isDigit c = (let n = (of_char c :: nat) in 48 \<le> n \<and> n \<le> 57)"

definition parseInt :: "string \<Rightarrow> int" where
  \<comment> \<open>the value of a string of decimal digits\<close>
  "parseInt s = foldl (\<lambda>n c. 10 * n + (of_char c - 48)) 0 s"

definition arrayIndex :: "string \<Rightarrow> int option" where
  \<comment> \<open>the key as an array index: a canonical decimal numeral below \<open>2^32 - 1\<close>\<close>
  "arrayIndex s =
     (case s of
        [] \<Rightarrow> None
      | c # cs \<Rightarrow>
          if list_all isDigit s \<and> (c \<noteq> CHR ''0'' \<or> cs = []) \<and> parseInt s \<le> 4294967294
          then Some (parseInt s) else None)"

fun insertIndexed :: "int \<Rightarrow> string \<Rightarrow> 'v \<Rightarrow> (string \<times> 'v) list \<Rightarrow> (string \<times> 'v) list" where
  \<comment> \<open>a new array-index key goes after the smaller array-index keys\<close>
  "insertIndexed i k v [] = [(k, v)]"
| "insertIndexed i k v (p # ps) =
     (case arrayIndex (fst p) of
        Some j \<Rightarrow> if j < i then p # insertIndexed i k v ps else (k, v) # p # ps
      | None \<Rightarrow> (k, v) # p # ps)"

definition assign :: "string \<Rightarrow> 'v \<Rightarrow> (string \<times> 'v) list \<Rightarrow> (string \<times> 'v) list" where
  \<comment> \<open>\<open>obj[k] = v\<close> for an object \<open>v\<close>\<close>
  "assign k v obj =
     (if k = ''__proto__'' then obj
      else if k \<in> set (map fst obj) then AList.update k v obj
      else (case arrayIndex k of None \<Rightarrow> obj @ [(k, v)] | Some i \<Rightarrow> insertIndexed i k v obj))"

section \<open>Type Normalizer\<close>

text \<open>
  \<open>typeText.replace(/import\([^)]+\)\./g, '')\<close>: every match of \<open>import(\<close>, one or more
  characters other than \<open>)\<close>, then \<open>).\<close> is deleted, scanning from the left.
\<close>

definition notClose :: "char \<Rightarrow> bool" where
  "notClose c = (c \<noteq> CHR '')'')"

definition importMatch :: "string \<Rightarrow> string option" where
  \<comment> \<open>the rest of the text after a match at position 0, if there is one\<close>
  "importMatch s =
     (if startsWith s ''import(''
      then (let r = drop 7 s; body = takeWhile notClose r; after = dropWhile notClose r
            in if body \<noteq> [] \<and> startsWith after '').'' then Some (drop 2 after) else None)
      else None)"

lemma importMatch_shorter: "importMatch s = Some t \<Longrightarrow> length t < length s"
proof -
  assume a: "importMatch s = Some t"
  have "length (dropWhile notClose (drop 7 s)) \<le> length (drop 7 s)"
    by (rule length_dropWhile_le)
  moreover from a have "startsWith s ''import(''" and "t = drop 2 (dropWhile notClose (drop 7 s))"
    by (auto simp: importMatch_def Let_def split: if_splits)
  moreover from \<open>startsWith s ''import(''\<close> have "7 \<le> length s"
    by (cases "7 \<le> length s") (auto simp: startsWith_def)
  ultimately show ?thesis by simp
qed

function stripImports :: "string \<Rightarrow> string" where
  "stripImports [] = []"
| "stripImports (c # cs) =
     (case importMatch (c # cs) of
        Some t \<Rightarrow> stripImports t
      | None \<Rightarrow> c # stripImports cs)"
  by pat_completeness auto
termination
  by (relation "measure length") (auto dest: importMatch_shorter)

text \<open>
  \<open>/^"([^"]+)"(\s*\|\s*"([^"]+)")*$/\<close>: a quoted literal, then any number of
  \<open>| "literal"\<close> groups, up to the end of the text.
\<close>

definition notQuote :: "char \<Rightarrow> bool" where
  "notQuote c = (c \<noteq> CHR 0x22)"

definition quotedLiteral :: "string \<Rightarrow> (string \<times> string) option" where
  \<comment> \<open>\<open>"([^"]+)"\<close> at position 0: the literal and the rest of the text\<close>
  "quotedLiteral s =
     (case s of
        [] \<Rightarrow> None
      | c # r \<Rightarrow>
          (let body = takeWhile notQuote r; after = dropWhile notQuote r
           in if c = CHR 0x22 \<and> body \<noteq> [] \<and> after \<noteq> [] then Some (body, tl after) else None))"

lemma quotedLiteral_shorter: "quotedLiteral s = Some (b, t) \<Longrightarrow> length t < length s"
proof -
  assume a: "quotedLiteral s = Some (b, t)"
  then obtain c r where s: "s = c # r" by (cases s) (auto simp: quotedLiteral_def)
  have "length (dropWhile notQuote r) \<le> length r" by (rule length_dropWhile_le)
  moreover from a s have "t = tl (dropWhile notQuote r)"
    by (auto simp: quotedLiteral_def Let_def split: if_splits)
  ultimately show ?thesis using s by simp
qed

definition enumGroup :: "string \<Rightarrow> string option" where
  \<comment> \<open>\<open>\s*\|\s*"([^"]+)"\<close> at position 0: the rest of the text\<close>
  "enumGroup s =
     (case dropWhile isWhiteSpace s of
        [] \<Rightarrow> None
      | c # r \<Rightarrow>
          (if c = CHR ''|''
           then (case quotedLiteral (dropWhile isWhiteSpace r) of
                   None \<Rightarrow> None | Some (b, t) \<Rightarrow> Some t)
           else None))"

lemma enumGroup_shorter: "enumGroup s = Some t \<Longrightarrow> length t < length s"
proof -
  assume a: "enumGroup s = Some t"
  then obtain c r where d: "dropWhile isWhiteSpace s = c # r"
    by (cases "dropWhile isWhiteSpace s") (auto simp: enumGroup_def)
  with a obtain b where q: "quotedLiteral (dropWhile isWhiteSpace r) = Some (b, t)"
    by (auto simp: enumGroup_def split: if_splits option.splits)
  have "length (dropWhile isWhiteSpace s) \<le> length s" by (rule length_dropWhile_le)
  with d have "length r < length s" by simp
  moreover have "length (dropWhile isWhiteSpace r) \<le> length r" by (rule length_dropWhile_le)
  moreover from q have "length t < length (dropWhile isWhiteSpace r)"
    by (rule quotedLiteral_shorter)
  ultimately show ?thesis by simp
qed

function enumGroups :: "string \<Rightarrow> bool" where
  \<comment> \<open>\<open>(...)*$\<close>\<close>
  "enumGroups s =
     (if s = [] then True
      else (case enumGroup s of None \<Rightarrow> False | Some t \<Rightarrow> enumGroups t))"
  by pat_completeness auto
termination
  by (relation "measure length") (auto dest: enumGroup_shorter)

declare enumGroups.simps [simp del]

definition enumMatch :: "string \<Rightarrow> bool" where
  "enumMatch s = (case quotedLiteral s of None \<Rightarrow> False | Some (b, t) \<Rightarrow> enumGroups t)"

function quotedLiterals :: "string \<Rightarrow> string list" where
  \<comment> \<open>\<open>cleanType.match(/"([^"]+)"/g)?.map(s => s.slice(1, -1)) || []\<close>\<close>
  "quotedLiterals [] = []"
| "quotedLiterals (c # cs) =
     (case quotedLiteral (c # cs) of
        Some (b, t) \<Rightarrow> b # quotedLiterals t
      | None \<Rightarrow> quotedLiterals cs)"
  by pat_completeness auto
termination
  by (relation "measure length") (auto dest: quotedLiteral_shorter)

fun stripArrayMarkers :: "string \<Rightarrow> string" where
  \<comment> \<open>\<open>cleanType.replace(/\[\]|Array<|>/g, '')\<close>\<close>
  "stripArrayMarkers [] = []"
| "stripArrayMarkers (c # cs) =
     (if startsWith (c # cs) ''[]'' then stripArrayMarkers (drop 1 cs)
      else if startsWith (c # cs) ''Array<'' then stripArrayMarkers (drop 5 cs)
      else if c = CHR ''>'' then stripArrayMarkers cs
      else c # stripArrayMarkers cs)"

definition notGt :: "char \<Rightarrow> bool" where
  "notGt c = (c \<noteq> CHR ''>'')"

definition promiseAt :: "string \<Rightarrow> string option" where
  \<comment> \<open>\<open>Promise<(.+)>\<close> at position 0: the greedy group, which ends before the last \<open>>\<close>
      of the line\<close>
  "promiseAt s =
     (if startsWith s ''Promise<''
      then (let run = takeWhile (\<lambda>c. \<not> isLineTerminator c) (drop 8 s);
                back = dropWhile notGt (rev run)
            in if length back \<ge> 2 then Some (rev (tl back)) else None)
      else None)"

primrec promiseInner :: "string \<Rightarrow> string option" where
  \<comment> \<open>\<open>cleanType.match(/Promise<(.+)>/)?.[1]\<close>: the leftmost position that matches\<close>
  "promiseInner [] = None"
| "promiseInner (c # cs) =
     (case promiseAt (c # cs) of Some g \<Rightarrow> Some g | None \<Rightarrow> promiseInner cs)"

text \<open>
  \<open>typeMap\<close> is an object literal, so a lookup finds its ten own keys and, for any other
  key, what \<open>Object.prototype\<close> holds under that name (a function or an object, all truthy).
  A looked-up value is therefore either a string or such an inherited member.
\<close>

datatype jsvalue = Str string | Inherited string

definition typeMapOwn :: "(string \<times> string) list" where
  "typeMapOwn =
     [(''string'', ''string''), (''number'', ''number''), (''boolean'', ''boolean''),
      (''Date'', ''string''), (''any'', ''any''), (''unknown'', ''any''),
      (''object'', ''object''), (''void'', ''null''), (''undefined'', ''null''),
      (''null'', ''null'')]"

definition objectPrototypeKeys :: "string list" where
  "objectPrototypeKeys =
     [''constructor'', ''hasOwnProperty'', ''isPrototypeOf'', ''propertyIsEnumerable'',
      ''toLocaleString'', ''toString'', ''valueOf'', ''__defineGetter__'',
      ''__defineSetter__'', ''__lookupGetter__'', ''__lookupSetter__'', ''__proto__'']"

definition typeMap :: "string \<Rightarrow> jsvalue option" where
  \<comment> \<open>\<open>typeMap[cleanType]\<close>; \<open>None\<close> is \<open>undefined\<close>\<close>
  "typeMap k =
     (case map_of typeMapOwn k of
        Some v \<Rightarrow> Some (Str v)
      | None \<Rightarrow> if k \<in> set objectPrototypeKeys then Some (Inherited k) else None)"

record typeinfo =
  ti_type :: jsvalue
  ti_description :: "string option"
  ti_enum :: "string list option"

definition parseTypeScriptType :: "string \<Rightarrow> typeinfo" where
  \<comment> \<open>the module's copy (\<open>index\<close>)\<close>
  "parseTypeScriptType typeText =
     (let cleanType = trim (stripImports typeText)
      in if enumMatch cleanType
         then (let enumValues = quotedLiterals cleanType
               in \<lparr>ti_type = Str ''string'',
                   ti_description = Some (''One of: '' @ join '', '' enumValues),
                   ti_enum = Some enumValues\<rparr>)
         else if includesStr cleanType ''[]'' \<or> startsWith cleanType ''Array<''
         then \<lparr>ti_type = Str ''array'',
               ti_description = Some (''Array of '' @ stripArrayMarkers cleanType),
               ti_enum = None\<rparr>
         else if startsWith cleanType ''Promise<''
         then (let innerType = (case promiseInner cleanType of Some g \<Rightarrow> g | None \<Rightarrow> ''any'')
               in \<lparr>ti_type = Str ''promise'',
                   ti_description = Some (''Promise resolving to '' @ innerType),
                   ti_enum = None\<rparr>)
         else if includesStr cleanType ''{'' \<and> includesStr cleanType ''}''
         then \<lparr>ti_type = Str ''object'', ti_description = Some ''Complex object type'',
               ti_enum = None\<rparr>
         else (let t = (case typeMap cleanType of Some v \<Rightarrow> v | None \<Rightarrow> Str cleanType)
               in \<lparr>ti_type = t,
                   ti_description = (if Str cleanType \<noteq> t then Some cleanType else None),
                   ti_enum = None\<rparr>))"

definition parseTypeScriptType_cli :: "string option \<Rightarrow> typeinfo" where
  \<comment> \<open>the command-line copy, which starts with \<open>if (!typeText) return { type: "any" }\<close>;
      \<open>None\<close> is a missing (\<open>undefined\<close>) argument\<close>
  "parseTypeScriptType_cli typeText =
     (case typeText of
        None \<Rightarrow> \<lparr>ti_type = Str ''any'', ti_description = None, ti_enum = None\<rparr>
      | Some t \<Rightarrow>
          if t = [] then \<lparr>ti_type = Str ''any'', ti_description = None, ti_enum = None\<rparr>
          else parseTypeScriptType t)"

section \<open>Name Classifier\<close>

definition fetchPrefixes :: "string list" where
  "fetchPrefixes = [''get'', ''fetch'', ''find'', ''retrieve'', ''load'', ''query'']"

definition createPrefixes :: "string list" where
  "createPrefixes = [''create'', ''add'', ''insert'', ''post'']"

definition updatePrefixes :: "string list" where
  "updatePrefixes = [''update'', ''edit'', ''modify'', ''patch'', ''put'']"

definition deletePrefixes :: "string list" where
  "deletePrefixes = [''delete'', ''remove'', ''destroy'']"

definition listPrefixes :: "string list" where
  "listPrefixes = [''list'', ''getAll'']"

definition searchPrefixes :: "string list" where
  "searchPrefixes = [''search'', ''filter'']"

definition validatePrefixes :: "string list" where
  "validatePrefixes = [''validate'', ''check'', ''verify'']"

definition authPrefixes :: "string list" where
  "authPrefixes = [''auth'', ''login'', ''logout'', ''register'']"

definition guessDescription :: "string \<Rightarrow> (string \<times> 'a) list \<Rightarrow> string" where
  \<comment> \<open>\<open>params\<close> is the parameter object, an association list in insertion order\<close>
  "guessDescription name params =
     (let paramCount = length (map fst params);
          hasId = list_ex (\<lambda>p. includesStr (toLowerCase p) ''id'') (map fst params)
      in if matchPrefix fetchPrefixes name \<noteq> None
         then (if hasId
               then ''Fetch a specific '' @ toLowerCase (stripPrefix fetchPrefixes name) @ '' by ID''
               else ''Fetch '' @ toLowerCase (stripPrefix fetchPrefixes name) @ '' data'')
         else if matchPrefix createPrefixes name \<noteq> None
         then ''Create a new '' @ toLowerCase (stripPrefix createPrefixes name) @ '' record''
         else if matchPrefix updatePrefixes name \<noteq> None
         then ''Update an existing '' @ toLowerCase (stripPrefix updatePrefixes name) @ '' record''
         else if matchPrefix deletePrefixes name \<noteq> None
         then ''Delete a '' @ toLowerCase (stripPrefix deletePrefixes name) @ '' record''
         else if matchPrefix listPrefixes name \<noteq> None
         then ''List all '' @ toLowerCase (stripPrefix listPrefixes name) @ '' records''
         else if matchPrefix searchPrefixes name \<noteq> None
         then ''Search and filter '' @ toLowerCase (stripPrefix searchPrefixes name) @ '' records''
         else if matchPrefix validatePrefixes name \<noteq> None
         then ''Validate '' @ toLowerCase (stripPrefix validatePrefixes name) @ '' data''
         else ''Function: '' @ name @
              (if paramCount > 0 then '' ('' @ showNat paramCount @ '' parameters)'' else []))"

definition categorizeFunction :: "string \<Rightarrow> string \<Rightarrow> string" where
  "categorizeFunction name filePath =
     (if includesStr filePath ''/api/'' \<or> includesStr filePath ''/routes/'' then ''api''
      else if includesStr filePath ''/utils/'' \<or> includesStr filePath ''/helpers/'' then ''utility''
      else if includesStr filePath ''/services/'' then ''service''
      else if includesStr filePath ''/models/'' then ''model''
      else if includesStr filePath ''/controllers/'' then ''controller''
      else if includesStr filePath ''/middleware/'' then ''middleware''
      else if matchPrefix fetchPrefixes name \<noteq> None then ''data-access''
      else if matchPrefix createPrefixes name \<noteq> None then ''data-creation''
      else if matchPrefix updatePrefixes name \<noteq> None then ''data-modification''
      else if matchPrefix deletePrefixes name \<noteq> None then ''data-deletion''
      else if matchPrefix validatePrefixes name \<noteq> None then ''validation''
      else if matchPrefix authPrefixes name \<noteq> None then ''authentication''
      else ''general'')"

section \<open>Symbol Filter\<close>

definition isUpperAZ :: "char \<Rightarrow> bool" where
  \<comment> \<open>\<open>[A-Z]\<close>, without the \<open>i\<close> flag\<close>
  "isUpperAZ c = (let n = (of_char c :: nat) in 65 \<le> n \<and> n \<le> 90)"

definition isValidToolFunction :: "string \<Rightarrow> string \<Rightarrow> bool" where
  \<comment> \<open>the second argument is \<open>node.getSourceFile().getFilePath()\<close>, the only thing the
      function reads from the node\<close>
  "isValidToolFunction name nodeFilePath =
     (if startsWith name ''_'' \<or> startsWith name ''#'' then False
      else if matchPrefix [''test'', ''spec'', ''mock'', ''stub''] name \<noteq> None then False
      else if matchPrefix [''helper'', ''util'', ''internal'', ''private''] name \<noteq> None then False
      else if matchPrefix [''constructor'', ''init''] name \<noteq> None then False
      else if (case name of [] \<Rightarrow> False | c # cs \<Rightarrow> isUpperAZ c) \<and> includesStr nodeFilePath ''component''
      then False
      else True)"

section \<open>Syntax nodes handed to the Source Scanner\<close>

text \<open>
  The scanner reads the syntax tree through the node classes of the parsing library.  A
  node is modelled by the members the scanner calls on it.  The three classes of candidate
  differ in the members they have, and the scanner asks for each member before it calls
  it (\<open>'isExported' in fn\<close>), so the model records, per class, which members exist:
  a function declaration has all of them, a variable declaration has \<open>getName\<close> and
  \<open>isExported\<close> only, and a method declaration has everything but \<open>isExported\<close>.
\<close>

datatype syntaxKind =
  ExportKeyword | DefaultKeyword | PublicKeyword | PrivateKeyword | ProtectedKeyword
| StaticKeyword | AsyncKeyword | AbstractKeyword

datatype error = Thrown string

record parameter =
  p_name :: string
  p_typeText :: string
  p_hasQuestionToken :: bool

datatype docComment = CommentText string | CommentParts "string option list"

record jsDocTag =
  tag_name :: string
  tag_comment :: "docComment option"

record jsDoc =
  doc_comment :: "docComment option"
  doc_tags :: "jsDocTag list"

record functionDeclaration =
  fd_name :: "string option"
  fd_isExported :: bool
  fd_modifiers :: "syntaxKind list"
  fd_parameters :: "parameter list"
  fd_jsDocs :: "jsDoc list"
  fd_returnType :: string

datatype initializer = ArrowFunction | FunctionExpression | OtherExpression

record variableDeclaration =
  vd_name :: string
  vd_initializer :: "initializer option"
  vd_isExported :: bool
  vd_parentStatement :: "syntaxKind list option"

record methodDeclaration =
  md_name :: string
  md_modifiers :: "syntaxKind list"
  md_parameters :: "parameter list"
  md_jsDocs :: "jsDoc list"
  md_returnType :: string

record classDeclaration =
  cd_isExported :: bool
  cd_methods :: "methodDeclaration list"

record sourceFile =
  sf_filePath :: string
  sf_functions :: "functionDeclaration list"
  sf_variableDeclarations :: "variableDeclaration list"
  sf_classes :: "classDeclaration list"

datatype fn =
  Function functionDeclaration
| Variable variableDeclaration
| Method methodDeclaration

fun getName :: "fn \<Rightarrow> string option" where
  "getName (Function f) = fd_name f"
| "getName (Variable v) = Some (vd_name v)"
| "getName (Method m) = Some (md_name m)"

fun isExportedMember :: "fn \<Rightarrow> bool option" where
  \<comment> \<open>\<open>None\<close>: the class has no \<open>isExported\<close>\<close>
  "isExportedMember (Function f) = Some (fd_isExported f)"
| "isExportedMember (Variable v) = Some (vd_isExported v)"
| "isExportedMember (Method m) = None"

fun hasModifierMember :: "fn \<Rightarrow> (syntaxKind \<Rightarrow> bool) option" where
  "hasModifierMember (Function f) = Some (\<lambda>k. k \<in> set (fd_modifiers f))"
| "hasModifierMember (Variable v) = None"
| "hasModifierMember (Method m) = Some (\<lambda>k. k \<in> set (md_modifiers m))"

fun parentExported :: "fn \<Rightarrow> bool" where
  \<comment> \<open>\<open>Node.isVariableStatement(parent) && parent.hasModifier(ExportKeyword)\<close>\<close>
  "parentExported (Variable v) =
     (case vd_parentStatement v of None \<Rightarrow> False | Some ms \<Rightarrow> ExportKeyword \<in> set ms)"
| "parentExported _ = False"

fun getParametersMember :: "fn \<Rightarrow> parameter list option" where
  "getParametersMember (Function f) = Some (fd_parameters f)"
| "getParametersMember (Variable v) = None"
| "getParametersMember (Method m) = Some (md_parameters m)"

fun getJsDocsMember :: "fn \<Rightarrow> jsDoc list option" where
  "getJsDocsMember (Function f) = Some (fd_jsDocs f)"
| "getJsDocsMember (Variable v) = None"
| "getJsDocsMember (Method m) = Some (md_jsDocs m)"

fun getReturnTypeMember :: "fn \<Rightarrow> string option" where
  "getReturnTypeMember (Function f) = Some (fd_returnType f)"
| "getReturnTypeMember (Variable v) = None"
| "getReturnTypeMember (Method m) = Some (md_returnType m)"

section \<open>Tool Descriptors\<close>

record parameterSchema =
  ps_type :: jsvalue
  ps_required :: bool
  ps_description :: "string option"
  ps_enum :: "string list option"

record tool =
  t_name :: string
  t_description :: string
  t_parameters :: "(string \<times> parameterSchema) list"
  t_returnType :: jsvalue
  t_file :: string
  t_examples :: "string list option"
  t_category :: string

definition parameterEntry :: "parameter \<Rightarrow> parameterSchema" where
  "parameterEntry param =
     (let typeInfo = parseTypeScriptType (p_typeText param)
      in \<lparr>ps_type = ti_type typeInfo, ps_required = (\<not> p_hasQuestionToken param),
          ps_description = ti_description typeInfo, ps_enum = ti_enum typeInfo\<rparr>)"

definition extractParameters :: "parameter list \<Rightarrow> (string \<times> parameterSchema) list" where
  \<comment> \<open>\<open>parameters[paramName] = {...}\<close> for each parameter in turn\<close>
  "extractParameters paramList =
     foldl (\<lambda>parameters param. assign (p_name param) (parameterEntry param) parameters)
       [] paramList"

definition commentText :: "docComment \<Rightarrow> string" where
  \<comment> \<open>\<open>typeof comment === 'string' ? comment : comment.map(c => c?.getText()).join('')\<close>\<close>
  "commentText c =
     (case c of
        CommentText s \<Rightarrow> s
      | CommentParts ps \<Rightarrow> concat (map (\<lambda>p. case p of None \<Rightarrow> [] | Some t \<Rightarrow> t) ps))"

definition truthyComment :: "docComment option \<Rightarrow> bool" where
  "truthyComment c =
     (case c of None \<Rightarrow> False | Some (CommentText s) \<Rightarrow> s \<noteq> [] | Some (CommentParts ps) \<Rightarrow> True)"

definition tagCommentString :: "docComment option \<Rightarrow> string" where
  \<comment> \<open>\<open>(tag.getComment() || '').toString()\<close>; an array prints its nodes separated by commas\<close>
  "tagCommentString c =
     (case c of
        None \<Rightarrow> []
      | Some (CommentText s) \<Rightarrow> s
      | Some (CommentParts ps) \<Rightarrow>
          join '','' (map (\<lambda>p. case p of None \<Rightarrow> [] | Some t \<Rightarrow> ''[object Object]'') ps))"

definition documentation :: "fn \<Rightarrow> string \<Rightarrow> string \<times> string list" where
  \<comment> \<open>the description and the examples, given the guessed description\<close>
  "documentation f guessed =
     (case (case getJsDocsMember f of Some ds \<Rightarrow> ds | None \<Rightarrow> []) of
        [] \<Rightarrow> (guessed, [])
      | jsDoc # rest \<Rightarrow>
          ((case doc_comment jsDoc of
              None \<Rightarrow> guessed
            | Some comment \<Rightarrow> if truthyComment (Some comment) then commentText comment else guessed),
           map (\<lambda>tag. tagCommentString (tag_comment tag))
             (filter (\<lambda>tag. tag_name tag = ''example'') (doc_tags jsDoc))))"

definition buildTool :: "(string \<Rightarrow> string) \<Rightarrow> string \<Rightarrow> string \<Rightarrow> fn \<Rightarrow> tool" where
  \<comment> \<open>\<open>relative\<close> is \<open>path.relative(process.cwd(), _)\<close>\<close>
  "buildTool relative filePath name f =
     (let parameters =
            extractParameters (case getParametersMember f of Some ps \<Rightarrow> ps | None \<Rightarrow> []);
          doc = documentation f (guessDescription name parameters);
          returnType =
            (case getReturnTypeMember f of
               Some txt \<Rightarrow> ti_type (parseTypeScriptType txt)
             | None \<Rightarrow> Str ''any'')
      in \<lparr>t_name = name, t_description = fst doc, t_parameters = parameters,
          t_returnType = returnType, t_file = relative filePath,
          t_examples = (if length (snd doc) > 0 then Some (snd doc) else None),
          t_category = categorizeFunction name filePath\<rparr>)"

section \<open>Source Scanner\<close>

definition allFunctions :: "sourceFile \<Rightarrow> fn list" where
  "allFunctions sf =
     map Function (sf_functions sf)
     @ map Variable
         (filter (\<lambda>v. vd_initializer v = Some ArrowFunction \<or> vd_initializer v = Some FunctionExpression)
            (sf_variableDeclarations sf))
     @ map Method
         (concat (map (\<lambda>cls.
            if cd_isExported cls
            then filter (\<lambda>m. PublicKeyword \<in> set (md_modifiers m) \<or> PrivateKeyword \<notin> set (md_modifiers m))
                   (cd_methods cls)
            else []) (sf_classes sf)))"

definition exportStatus :: "fn \<Rightarrow> bool" where
  "exportStatus f =
     (case isExportedMember f of
        Some b \<Rightarrow> b
      | None \<Rightarrow>
          (case hasModifierMember f of
             Some hasModifier \<Rightarrow> hasModifier ExportKeyword
           | None \<Rightarrow> parentExported f))"

definition functionKey :: "string \<Rightarrow> string \<Rightarrow> string" where
  "functionKey filePath name = filePath @ '':'' @ name"

type_synonym scanState = "tool list \<times> string set"

definition processFunction ::
  "(string \<Rightarrow> string) \<Rightarrow> string \<Rightarrow> string \<Rightarrow> scanState \<Rightarrow> fn \<Rightarrow> scanState" where
  \<comment> \<open>the body of \<open>for (const fn of allFunctions)\<close>; the state is \<open>tools\<close> and
      \<open>processedFunctions\<close>\<close>
  "processFunction relative filePath nodeFilePath st f =
     (let name = (case getName f of Some n \<Rightarrow> n | None \<Rightarrow> ''[anonymous]'')
      in if \<not> isValidToolFunction name nodeFilePath then st
         else if \<not> exportStatus f then st
         else if functionKey filePath name \<in> snd st then st
         else (fst st @ [buildTool relative filePath name f],
               insert (functionKey filePath name) (snd st)))"

definition processFile ::
  "(string \<Rightarrow> error + sourceFile) \<Rightarrow> (string \<Rightarrow> string) \<Rightarrow> scanState \<Rightarrow> string \<Rightarrow> scanState" where
  \<comment> \<open>the body of \<open>for (const filePath of tsFiles)\<close>: a file that cannot be added is
      caught and skipped\<close>
  "processFile project relative st filePath =
     (case project filePath of
        Inl e \<Rightarrow> st
      | Inr sf \<Rightarrow> foldl (processFunction relative filePath (sf_filePath sf)) st (allFunctions sf))"

section \<open>The world outside the scanners\<close>

text \<open>
  The scanners call the file system, the globbing library, the syntax library and the SQL
  parsing library.  These are taken as parameters, collected in one record; a call that can
  throw returns a sum with the thrown value on the left.
\<close>

record projectOptions =
  tsConfigFilePath :: "string option"
  skipAddingFilesFromTsConfig :: bool

record columnType =
  ct_datatype :: "string option"
  ct_length :: "nat option"

record columnOptions =
  co_notNull :: bool
  co_primaryKey :: bool
  co_autoIncrement :: bool
  co_defaultValue :: "string option"

record column =
  col_name :: string
  col_type :: "columnType option"
  col_options :: "columnOptions option"

record tableIndex =
  idx_name :: "string option"
  idx_columns :: "string list option"

record reference =
  ref_table :: "string option"
  ref_column :: "string option"

record tableForeignKey =
  fk_column :: "string option"
  fk_references :: "reference option"

record sqlTable =
  tb_name :: "string option"
  tb_columns :: "column list option"
  tb_indexes :: "tableIndex list option"
  tb_foreignKeys :: "tableForeignKey list option"

record sqlResult =
  sr_tables :: "sqlTable option list option"

datatype parserResults = Single "sqlResult option" | Many "sqlResult option list"

record projectMetadata =
  pm_name :: string
  pm_version :: string
  pm_description :: string
  pm_frameworks :: "string list"

record world =
  w_existsSync :: "string \<Rightarrow> bool"
  w_glob :: "string list \<Rightarrow> string list \<Rightarrow> error + string list"
  w_newProject :: "projectOptions \<Rightarrow> error + (string \<Rightarrow> error + sourceFile)"
  w_relative :: "string \<Rightarrow> string"
  w_readFileSync :: "string \<Rightarrow> error + string"
  w_statSync :: "string \<Rightarrow> error + string"
  w_Parser :: "string \<Rightarrow> error + (string \<Rightarrow> error + parserResults)"
  w_importParser :: bool
  w_projectMetadata :: projectMetadata

definition tsPatterns :: "string list" where
  "tsPatterns = [''**/*.ts'', ''**/*.tsx'']"

definition tsIgnore :: "string list" where
  "tsIgnore = [''node_modules'', ''dist'', ''build'', ''**/*.test.*'', ''**/*.spec.*'', ''**/*.d.ts'']"

definition extractTools :: "world \<Rightarrow> error + tool list" where
  \<comment> \<open>the module's copy\<close>
  "extractTools w =
     (case w_newProject w \<lparr>tsConfigFilePath = Some ''tsconfig.json'',
                            skipAddingFilesFromTsConfig = True\<rparr> of
        Inl e \<Rightarrow> Inl e
      | Inr project \<Rightarrow>
          (case w_glob w tsPatterns tsIgnore of
             Inl e \<Rightarrow> Inl e
           | Inr tsFiles \<Rightarrow>
               Inr (fst (foldl (processFile project (w_relative w)) ([], {}) tsFiles))))"

subsection \<open>The command-line copy of the Source Scanner\<close>

definition parameterEntry_cli :: "parameter \<Rightarrow> parameterSchema" where
  "parameterEntry_cli param =
     (let paramType = (if p_typeText param = [] then ''any'' else p_typeText param);
          typeInfo = parseTypeScriptType_cli (Some paramType)
      in \<lparr>ps_type = ti_type typeInfo, ps_required = (\<not> p_hasQuestionToken param),
          ps_description = ti_description typeInfo, ps_enum = ti_enum typeInfo\<rparr>)"

definition extractParameters_cli :: "parameter list \<Rightarrow> (string \<times> parameterSchema) list" where
  "extractParameters_cli paramList =
     foldl (\<lambda>parameters param. assign (p_name param) (parameterEntry_cli param) parameters)
       [] paramList"

definition commentText_cli :: "docComment \<Rightarrow> string" where
  \<comment> \<open>a missing part prints as \<open>String(undefined)\<close>\<close>
  "commentText_cli c =
     (case c of
        CommentText s \<Rightarrow> s
      | CommentParts ps \<Rightarrow> concat (map (\<lambda>p. case p of None \<Rightarrow> ''undefined'' | Some t \<Rightarrow> t) ps))"

definition tagCommentString_cli :: "docComment option \<Rightarrow> string" where
  \<comment> \<open>\<open>typeof comment === 'string' ? comment : String(comment)\<close>\<close>
  "tagCommentString_cli c =
     (case c of
        None \<Rightarrow> ''undefined''
      | Some (CommentText s) \<Rightarrow> s
      | Some (CommentParts ps) \<Rightarrow>
          join '','' (map (\<lambda>p. case p of None \<Rightarrow> [] | Some t \<Rightarrow> ''[object Object]'') ps))"

definition documentation_cli :: "fn \<Rightarrow> string \<Rightarrow> string \<times> string list" where
  "documentation_cli f guessed =
     (case (case getJsDocsMember f of Some ds \<Rightarrow> ds | None \<Rightarrow> []) of
        [] \<Rightarrow> (guessed, [])
      | jsDoc # rest \<Rightarrow>
          ((case doc_comment jsDoc of
              None \<Rightarrow> guessed
            | Some comment \<Rightarrow>
                if truthyComment (Some comment) then commentText_cli comment else guessed),
           map (\<lambda>tag. tagCommentString_cli (tag_comment tag))
             (filter (\<lambda>tag. tag_name tag = ''example'') (doc_tags jsDoc))))"

definition buildTool_cli :: "(string \<Rightarrow> string) \<Rightarrow> string \<Rightarrow> string \<Rightarrow> fn \<Rightarrow> tool" where
  "buildTool_cli relative filePath name f =
     (let parameters =
            extractParameters_cli (case getParametersMember f of Some ps \<Rightarrow> ps | None \<Rightarrow> []);
          doc = documentation_cli f (guessDescription name parameters);
          returnType =
            (case getReturnTypeMember f of
               Some txt \<Rightarrow> ti_type (parseTypeScriptType_cli (Some txt))
             | None \<Rightarrow> Str ''any'')
      in \<lparr>t_name = name, t_description = fst doc, t_parameters = parameters,
          t_returnType = returnType, t_file = relative filePath,
          t_examples = (if length (snd doc) > 0 then Some (snd doc) else None),
          t_category = categorizeFunction name filePath\<rparr>)"

definition processFunction_cli ::
  "(string \<Rightarrow> string) \<Rightarrow> string \<Rightarrow> string \<Rightarrow> scanState \<Rightarrow> fn \<Rightarrow> scanState" where
  "processFunction_cli relative filePath nodeFilePath st f =
     (let name = (case getName f of Some n \<Rightarrow> n | None \<Rightarrow> ''[anonymous]'')
      in if name = ''[anonymous]'' then st
         else if \<not> isValidToolFunction name nodeFilePath then st
         else if \<not> exportStatus f then st
         else if functionKey filePath name \<in> snd st then st
         else (fst st @ [buildTool_cli relative filePath name f],
               insert (functionKey filePath name) (snd st)))"

definition processFile_cli ::
  "world \<Rightarrow> (string \<Rightarrow> error + sourceFile) \<Rightarrow> scanState \<Rightarrow> string \<Rightarrow> scanState" where
  "processFile_cli w project st filePath =
     (if \<not> w_existsSync w filePath then st
      else (case project filePath of
              Inl e \<Rightarrow> st
            | Inr sf \<Rightarrow>
                foldl (processFunction_cli (w_relative w) filePath (sf_filePath sf)) st
                  (allFunctions sf)))"

definition tsIgnore_cli :: "string list" where
  "tsIgnore_cli =
     [''node_modules'', ''dist'', ''build'', ''**/*.test.*'', ''**/*.spec.*'', ''**/*.d.ts'', ''.git'']"

definition extractTools_cli :: "world \<Rightarrow> error + tool list" where
  "extractTools_cli w =
     (let projectOptions =
            (if w_existsSync w ''tsconfig.json''
             then \<lparr>tsConfigFilePath = Some ''tsconfig.json'', skipAddingFilesFromTsConfig = True\<rparr>
             else \<lparr>tsConfigFilePath = None, skipAddingFilesFromTsConfig = True\<rparr>)
      in case (case w_newProject w projectOptions of
                 Inr project \<Rightarrow> Inr project
               | Inl e \<Rightarrow>
                   w_newProject w \<lparr>tsConfigFilePath = None, skipAddingFilesFromTsConfig = True\<rparr>) of
           Inl e \<Rightarrow> Inl e
         | Inr project \<Rightarrow>
             (case w_glob w tsPatterns tsIgnore_cli of
                Inl e \<Rightarrow> Inl e
              | Inr tsFiles \<Rightarrow>
                  if length tsFiles = 0 then Inr []
                  else Inr (fst (foldl (processFile_cli w project) ([], {}) tsFiles))))"

section \<open>Schema Scanner\<close>

record columnSchema =
  cs_type :: "string option"
  cs_nullable :: bool
  cs_primaryKey :: bool
  cs_autoIncrement :: bool
  cs_defaultValue :: "string option"
  cs_length :: "nat option"

record foreignKey =
  fkd_column :: "string option"
  fkd_referencesTable :: "string option"
  fkd_referencesColumn :: "string option"

record resource =
  r_name :: string
  r_type :: string
  r_columns :: "(string \<times> columnSchema) list"
  r_indexes :: "string list"
  r_foreignKeys :: "foreignKey list"
  r_file :: string
  r_dialect :: string
  r_estimatedRows :: string
  r_lastModified :: string

definition columnRest :: "column \<Rightarrow> string option \<Rightarrow> columnSchema" where
  \<comment> \<open>the entry of one column, given its \<open>type\<close> field; an absent option reads as falsy\<close>
  "columnRest col ty =
     \<lparr>cs_type = ty,
      cs_nullable = (\<not> (case col_options col of None \<Rightarrow> False | Some opt \<Rightarrow> co_notNull opt)),
      cs_primaryKey = (case col_options col of None \<Rightarrow> False | Some opt \<Rightarrow> co_primaryKey opt),
      cs_autoIncrement = (case col_options col of None \<Rightarrow> False | Some opt \<Rightarrow> co_autoIncrement opt),
      cs_defaultValue = (case col_options col of None \<Rightarrow> None | Some opt \<Rightarrow> co_defaultValue opt),
      cs_length =
        (case col_type col of
           None \<Rightarrow> None
         | Some t \<Rightarrow> (case ct_length t of None \<Rightarrow> None | Some n \<Rightarrow> if n = 0 then None else Some n))\<rparr>"

fun extractColumns ::
  "column list \<Rightarrow> (string \<times> columnSchema) list \<Rightarrow> error + (string \<times> columnSchema) list" where
  \<comment> \<open>the module's copy reads \<open>col.type.datatype\<close>, which throws when \<open>col.type\<close> is missing\<close>
  "extractColumns [] columns = Inr columns"
| "extractColumns (col # cols) columns =
     (case col_type col of
        None \<Rightarrow> Inl (Thrown ''TypeError'')
      | Some t \<Rightarrow> extractColumns cols (assign (col_name col) (columnRest col (ct_datatype t)) columns))"

fun extractColumns_cli ::
  "column list \<Rightarrow> (string \<times> columnSchema) list \<Rightarrow> error + (string \<times> columnSchema) list" where
  \<comment> \<open>the command-line copy reads \<open>col.type?.datatype || 'unknown'\<close>\<close>
  "extractColumns_cli [] columns = Inr columns"
| "extractColumns_cli (col # cols) columns =
     extractColumns_cli cols
       (assign (col_name col)
          (columnRest col
             (case col_type col of
                None \<Rightarrow> Some ''unknown''
              | Some t \<Rightarrow>
                  (case ct_datatype t of
                     None \<Rightarrow> Some ''unknown''
                   | Some d \<Rightarrow> if d = [] then Some ''unknown'' else Some d)))
          columns)"

definition indexName :: "string \<Rightarrow> tableIndex \<Rightarrow> string" where
  "indexName tableName idx =
     (let synthesized =
            tableName @ ''_''
            @ (case idx_columns idx of None \<Rightarrow> ''undefined'' | Some cs \<Rightarrow> join ''_'' cs)
            @ ''_idx''
      in case idx_name idx of
           None \<Rightarrow> synthesized
         | Some n \<Rightarrow> if n = [] then synthesized else n)"

definition foreignKeyEntry :: "tableForeignKey \<Rightarrow> foreignKey" where
  "foreignKeyEntry fk =
     \<lparr>fkd_column = fk_column fk,
      fkd_referencesTable = (case fk_references fk of None \<Rightarrow> None | Some r \<Rightarrow> ref_table r),
      fkd_referencesColumn = (case fk_references fk of None \<Rightarrow> None | Some r \<Rightarrow> ref_column r)\<rparr>"

type_synonym columnExtractor =
  "column list \<Rightarrow> (string \<times> columnSchema) list \<Rightarrow> error + (string \<times> columnSchema) list"

definition buildResource ::
  "columnExtractor \<Rightarrow> world \<Rightarrow> string \<Rightarrow> string \<Rightarrow> string \<Rightarrow> sqlTable \<Rightarrow> error + resource" where
  \<comment> \<open>one pass of \<open>for (const table of tables)\<close> for a table with a name, up to the
      argument of \<open>resources.push\<close>; the two copies differ in the column loop only\<close>
  "buildResource cols w file dialect name table =
     (case cols (case tb_columns table of None \<Rightarrow> [] | Some cs \<Rightarrow> cs) [] of
        Inl e \<Rightarrow> Inl e
      | Inr columns \<Rightarrow>
          (let indexes = map (indexName name) (case tb_indexes table of None \<Rightarrow> [] | Some is \<Rightarrow> is);
               foreignKeys =
                 map foreignKeyEntry (case tb_foreignKeys table of None \<Rightarrow> [] | Some fs \<Rightarrow> fs)
           in case w_statSync w file of
                Inl e \<Rightarrow> Inl e
              | Inr mtime \<Rightarrow>
                  Inr \<lparr>r_name = name, r_type = ''sql_table'', r_columns = columns,
                       r_indexes = indexes, r_foreignKeys = foreignKeys,
                       r_file = w_relative w file, r_dialect = dialect,
                       r_estimatedRows = ''unknown'', r_lastModified = mtime\<rparr>))"

definition tableName :: "sqlTable \<Rightarrow> string option" where
  \<comment> \<open>\<open>None\<close> when \<open>!table.name\<close>\<close>
  "tableName t = (case tb_name t of None \<Rightarrow> None | Some n \<Rightarrow> if n = [] then None else Some n)"

fun processTables ::
  "columnExtractor \<Rightarrow> world \<Rightarrow> string \<Rightarrow> string \<Rightarrow> sqlTable option list \<Rightarrow> resource list
     \<Rightarrow> error option \<times> resource list" where
  \<comment> \<open>\<open>for (const table of tables)\<close>: the list of resources so far, and the value
      thrown, if the loop was left by a throw\<close>
  "processTables cols w file dialect [] resources = (None, resources)"
| "processTables cols w file dialect (table # tables) resources =
     (case table of
        None \<Rightarrow> processTables cols w file dialect tables resources
      | Some t \<Rightarrow>
          (case tableName t of
             None \<Rightarrow> processTables cols w file dialect tables resources
           | Some name \<Rightarrow>
               (case buildResource cols w file dialect name t of
                  Inl e \<Rightarrow> (Some e, resources)
                | Inr r \<Rightarrow> processTables cols w file dialect tables (resources @ [r]))))"

definition tablesOf :: "parserResults \<Rightarrow> sqlTable option list" where
  \<comment> \<open>\<open>results.flatMap(res => res?.tables ?? [])\<close> after the \<open>Array.isArray\<close> wrapping\<close>
  "tablesOf pr =
     concat (map (\<lambda>res. case res of None \<Rightarrow> [] | Some r \<Rightarrow> (case sr_tables r of None \<Rightarrow> [] | Some ts \<Rightarrow> ts))
               (case pr of Single r \<Rightarrow> [r] | Many rs \<Rightarrow> rs))"

record sqlState =
  ss_resources :: "resource list"
  ss_parserCalls :: "(string \<times> string) list"

definition dialects :: "string list" where
  "dialects = [''mysql'', ''postgresql'', ''sqlite'', ''mssql'']"

fun tryDialects ::
  "columnExtractor \<Rightarrow> world \<Rightarrow> string \<Rightarrow> string \<Rightarrow> string list \<Rightarrow> sqlState \<Rightarrow> bool \<times> sqlState" where
  \<comment> \<open>\<open>for (const dialect of dialects)\<close>; the result is \<open>parsed\<close> and the state, in which
      every \<open>new Parser(dialect)\<close> is recorded with the file it was made for\<close>
  "tryDialects cols w file raw [] st = (False, st)"
| "tryDialects cols w file raw (dialect # rest) st =
     (let st1 = st\<lparr>ss_parserCalls := ss_parserCalls st @ [(file, dialect)]\<rparr>
      in case w_Parser w dialect of
           Inl e \<Rightarrow> tryDialects cols w file raw rest st1
         | Inr feed \<Rightarrow>
             (case feed raw of
                Inl e \<Rightarrow> tryDialects cols w file raw rest st1
              | Inr results \<Rightarrow>
                  (case processTables cols w file dialect (tablesOf results) (ss_resources st1) of
                     (Some e, resources) \<Rightarrow>
                       tryDialects cols w file raw rest (st1\<lparr>ss_resources := resources\<rparr>)
                   | (None, resources) \<Rightarrow> (True, st1\<lparr>ss_resources := resources\<rparr>))))"

definition processSqlFile :: "world \<Rightarrow> sqlState \<Rightarrow> string \<Rightarrow> sqlState" where
  \<comment> \<open>the module's copy of the body of \<open>for (const file of sqlFiles)\<close>\<close>
  "processSqlFile w st file =
     (case w_readFileSync w file of
        Inl e \<Rightarrow> st
      | Inr raw \<Rightarrow> snd (tryDialects extractColumns w file raw dialects st))"

definition sqlPatterns :: "string list" where
  "sqlPatterns = [''**/*.sql'']"

definition sqlIgnore :: "string list" where
  "sqlIgnore = [''node_modules'', ''dist'', ''build'', ''**/migrations/**'']"

definition scanSqlFiles :: "world \<Rightarrow> string list \<Rightarrow> sqlState" where
  "scanSqlFiles w sqlFiles =
     foldl (processSqlFile w) \<lparr>ss_resources = [], ss_parserCalls = []\<rparr> sqlFiles"

definition extractResources :: "world \<Rightarrow> error + resource list" where
  \<comment> \<open>the module's copy\<close>
  "extractResources w =
     (case w_glob w sqlPatterns sqlIgnore of
        Inl e \<Rightarrow> Inl e
      | Inr sqlFiles \<Rightarrow> Inr (ss_resources (scanSqlFiles w sqlFiles)))"

subsection \<open>The command-line copy of the Schema Scanner\<close>

datatype 'a outcome = Returned 'a | Rejected error | Exited nat

definition processSqlFile_cli :: "world \<Rightarrow> sqlState \<Rightarrow> string \<Rightarrow> sqlState" where
  "processSqlFile_cli w st file =
     (if \<not> w_existsSync w file then st
      else (case w_readFileSync w file of
              Inl e \<Rightarrow> st
            | Inr raw \<Rightarrow>
                if trim raw = [] then st
                else snd (tryDialects extractColumns_cli w file raw dialects st)))"

definition scanSqlFiles_cli :: "world \<Rightarrow> string list \<Rightarrow> sqlState" where
  "scanSqlFiles_cli w sqlFiles =
     foldl (processSqlFile_cli w) \<lparr>ss_resources = [], ss_parserCalls = []\<rparr> sqlFiles"

definition extractResources_cli :: "world \<Rightarrow> resource list outcome" where
  \<comment> \<open>\<open>initializeParser\<close> ends the process with status 1 when the parsing library
      cannot be loaded\<close>
  "extractResources_cli w =
     (case w_glob w sqlPatterns sqlIgnore of
        Inl e \<Rightarrow> Rejected e
      | Inr sqlFiles \<Rightarrow>
          if \<not> w_importParser w then Exited 1
          else Returned (ss_resources (scanSqlFiles_cli w sqlFiles)))"

section \<open>Pipeline Orchestrator\<close>

record manifestTool =
  mt_name :: string
  mt_description :: string
  mt_properties :: "(string \<times> parameterSchema) list"
  mt_required :: "string list"
  mt_returnType :: jsvalue
  mt_category :: string
  mt_file :: string
  mt_examples :: "string list option"

record manifestResource =
  mr_uri :: string
  mr_name :: string
  mr_description :: string
  mr_mimeType :: string
  mr_metadata :: resource

record manifest =
  m_mcpVersion :: string
  m_info :: projectMetadata
  m_tools :: "manifestTool list"
  m_resources :: "manifestResource list"
  m_totalTools :: nat
  m_totalResources :: nat
  m_toolsByCategory :: "(string \<times> nat) list"
  m_filesProcessed :: "nat \<times> nat"

definition toolEntry :: "tool \<Rightarrow> manifestTool" where
  "toolEntry t =
     \<lparr>mt_name = t_name t, mt_description = t_description t, mt_properties = t_parameters t,
      mt_required = map fst (filter (\<lambda>(name, param). ps_required param) (t_parameters t)),
      mt_returnType = t_returnType t, mt_category = t_category t, mt_file = t_file t,
      mt_examples = t_examples t\<rparr>"

definition resourceEntry :: "resource \<Rightarrow> manifestResource" where
  "resourceEntry r =
     \<lparr>mr_uri = ''sql://'' @ r_name r, mr_name = r_name r,
      mr_description = ''Database table: '' @ r_name r, mr_mimeType = ''application/json'',
      mr_metadata = r\<rparr>"

definition countByCategory :: "tool list \<Rightarrow> (string \<times> nat) list" where
  "countByCategory tools =
     foldl (\<lambda>acc t.
              let category = (if t_category t = [] then ''general'' else t_category t)
              in AList.update category
                   (case map_of acc category of None \<Rightarrow> 1 | Some n \<Rightarrow> Suc n) acc)
       [] tools"

definition statisticsIgnore :: "string list" where
  "statisticsIgnore = [''node_modules'', ''dist'', ''build'']"

definition assemble ::
  "world \<Rightarrow> tool list \<Rightarrow> resource list \<Rightarrow> projectMetadata \<Rightarrow> manifest outcome" where
  \<comment> \<open>the object built after \<open>Promise.all\<close>, without the time stamp and the fixed prose;
      the two globs of \<open>filesProcessed\<close> are awaited without a handler\<close>
  "assemble w tools resources projectMetadata =
     (case w_glob w tsPatterns statisticsIgnore of
        Inl e \<Rightarrow> Rejected e
      | Inr ts \<Rightarrow>
          (case w_glob w sqlPatterns statisticsIgnore of
             Inl e \<Rightarrow> Rejected e
           | Inr sqls \<Rightarrow>
               Returned
                 \<lparr>m_mcpVersion = ''0.1.0'',
                  m_info = projectMetadata
                    \<lparr>pm_description :=
                       (if pm_description projectMetadata = []
                        then ''Auto-generated MCP manifest for '' @ pm_name projectMetadata
                        else pm_description projectMetadata)\<rparr>,
                  m_tools = map toolEntry tools,
                  m_resources = map resourceEntry resources,
                  m_totalTools = length tools,
                  m_totalResources = length resources,
                  m_toolsByCategory = countByCategory tools,
                  m_filesProcessed = (length ts, length sqls)\<rparr>))"

definition generateMCPManifest :: "world \<Rightarrow> manifest outcome" where
  \<comment> \<open>the module's copy: \<open>Promise.all([extractTools(), extractResources(),
      extractProjectMetadata()])\<close> rejects as soon as one of them does\<close>
  "generateMCPManifest w =
     (case extractTools w of
        Inl e \<Rightarrow> Rejected e
      | Inr tools \<Rightarrow>
          (case extractResources w of
             Inl e \<Rightarrow> Rejected e
           | Inr resources \<Rightarrow> assemble w tools resources (w_projectMetadata w)))"

definition generateMCPManifest_cli :: "world \<Rightarrow> manifest outcome" where
  \<comment> \<open>the command-line copy: each member of \<open>Promise.all\<close> has its own
      \<open>.catch(error => [])\<close>\<close>
  "generateMCPManifest_cli w =
     (let tools = (case extractTools_cli w of Inl e \<Rightarrow> [] | Inr ts \<Rightarrow> ts)
      in case extractResources_cli w of
           Exited n \<Rightarrow> Exited n
         | Rejected e \<Rightarrow> assemble w tools [] (w_projectMetadata w)
         | Returned resources \<Rightarrow> assemble w tools resources (w_projectMetadata w))"

section \<open>Notions of the specification\<close>

definition primitiveKinds :: "string list" where
  \<comment> \<open>the primitive kinds of a type descriptor\<close>
  "primitiveKinds = [''string'', ''number'', ''boolean'', ''object'', ''null'', ''any'']"



definition clash :: "string \<Rightarrow> string \<Rightarrow> bool" where
  \<comment> \<open>two prefix patterns that can match the same name: up to case, one starts with the other\<close>
  "clash p q = (if length q \<le> length p then map foldAscii q = take (length q) (map foldAscii p)
                else map foldAscii p = take (length p) (map foldAscii q))"

subsection \<open>The Source Scanner in the words of the specification\<close>

type_synonym candidate = "string \<times> string \<times> fn"

definition candidates :: "(string \<Rightarrow> error + sourceFile) \<Rightarrow> string list \<Rightarrow> candidate list" where
  \<comment> \<open>the candidates of a run in discovery order, each with the path of its file as globbed
      and as the syntax library reports it; a file that cannot be added has none\<close>
  "candidates project tsFiles =
     concat (map (\<lambda>filePath.
       case project filePath of
         Inl e \<Rightarrow> []
       | Inr sf \<Rightarrow> map (\<lambda>f. (filePath, sf_filePath sf, f)) (allFunctions sf)) tsFiles)"

definition candidateName :: "candidate \<Rightarrow> string" where
  "candidateName c = (case getName (snd (snd c)) of Some n \<Rightarrow> n | None \<Rightarrow> ''[anonymous]'')"

definition eligible :: "candidate \<Rightarrow> bool" where
  \<comment> \<open>accepted by the Symbol Filter and exported\<close>
  "eligible c = (isValidToolFunction (candidateName c) (fst (snd c)) \<and> exportStatus (snd (snd c)))"

definition candidateKey :: "candidate \<Rightarrow> string" where
  \<comment> \<open>the key of the code: the string \<open>filePath:name\<close>\<close>
  "candidateKey c = functionKey (fst c) (candidateName c)"

definition candidatePair :: "candidate \<Rightarrow> string \<times> string" where
  \<comment> \<open>the deduplication key of the specification: the file path and the name\<close>
  "candidatePair c = (fst c, candidateName c)"

definition colonFree :: "string \<Rightarrow> bool" where
  "colonFree s = (CHR '':'' \<notin> set s)"

definition candidateTool :: "(string \<Rightarrow> string) \<Rightarrow> candidate \<Rightarrow> tool" where
  "candidateTool relative c = buildTool relative (fst c) (candidateName c) (snd (snd c))"

function firstByKey :: "('a \<Rightarrow> 'k) \<Rightarrow> 'a list \<Rightarrow> 'a list" where
  \<comment> \<open>first occurrence wins: an element stays, and everything after it with its key goes\<close>
  "firstByKey key [] = []"
| "firstByKey key (x # xs) = x # firstByKey key (filter (\<lambda>y. key y \<noteq> key x) xs)"
  by pat_completeness auto
termination
  by (relation "measure (\<lambda>(key, xs). length xs)") (auto simp: less_Suc_eq_le)

fun keepUnseen :: "('a \<Rightarrow> 'k) \<Rightarrow> 'k set \<Rightarrow> 'a list \<Rightarrow> 'a list" where
  \<comment> \<open>what the loop with its set of seen keys lets through\<close>
  "keepUnseen key seen [] = []"
| "keepUnseen key seen (x # xs) =
     (if key x \<in> seen then keepUnseen key seen xs else x # keepUnseen key (insert (key x) seen) xs)"

definition step :: "(string \<Rightarrow> string) \<Rightarrow> scanState \<Rightarrow> candidate \<Rightarrow> scanState" where
  \<comment> \<open>one pass of the loop over the candidates of a file, on a candidate of the run\<close>
  "step relative st c = processFunction relative (fst c) (fst (snd c)) st (snd (snd c))"

section \<open>Example projects\<close>

definition quietWorld :: world where
  \<comment> \<open>a project directory with no source file and no SQL file\<close>
  "quietWorld =
     \<lparr>w_existsSync = (\<lambda>path. True),
      w_glob = (\<lambda>patterns ignore. Inr []),
      w_newProject = (\<lambda>options. Inr (\<lambda>path. Inl (Thrown ''ENOENT''))),
      w_relative = (\<lambda>path. path),
      w_readFileSync = (\<lambda>path. Inl (Thrown ''ENOENT'')),
      w_statSync = (\<lambda>path. Inr ''2024-01-01T00:00:00.000Z''),
      w_Parser = (\<lambda>dialect. Inl (Thrown ''Unsupported SQL dialect'')),
      w_importParser = True,
      w_projectMetadata =
        \<lparr>pm_name = ''demo'', pm_version = ''1.0.0'', pm_description = [], pm_frameworks = []\<rparr>\<rparr>"

definition exportedFunction :: "string \<Rightarrow> string \<Rightarrow> functionDeclaration" where
  \<comment> \<open>\<open>export function name(id: T): User\<close>\<close>
  "exportedFunction name idType =
     \<lparr>fd_name = Some name, fd_isExported = True, fd_modifiers = [ExportKeyword],
      fd_parameters = [\<lparr>p_name = ''id'', p_typeText = idType, p_hasQuestionToken = False\<rparr>],
      fd_jsDocs = [], fd_returnType = ''User''\<rparr>"

definition usersFile :: sourceFile where
  \<comment> \<open>two overloads of \<open>getUser\<close>, and two exported functions with filtered names\<close>
  "usersFile =
     \<lparr>sf_filePath = ''/repo/src/users.ts'',
      sf_functions = [exportedFunction ''getUser'' ''string'', exportedFunction ''getUser'' ''number'',
                      exportedFunction ''testFoo'' ''string'', exportedFunction ''_helper'' ''string''],
      sf_variableDeclarations = [],
      sf_classes = []\<rparr>"

definition usersProject :: "string \<Rightarrow> error + sourceFile" where
  "usersProject path = (if path = ''src/users.ts'' then Inr usersFile else Inl (Thrown ''ENOENT''))"

definition usersWorld :: world where
  "usersWorld =
     quietWorld\<lparr>w_glob := (\<lambda>patterns ignore. if patterns = tsPatterns then Inr [''src/users.ts''] else Inr []),
                w_newProject := (\<lambda>options. Inr usersProject)\<rparr>"

definition findUserMethod :: methodDeclaration where
  \<comment> \<open>\<open>public findUser(id: string): User\<close>\<close>
  "findUserMethod =
     \<lparr>md_name = ''findUser'', md_modifiers = [PublicKeyword],
      md_parameters = [\<lparr>p_name = ''id'', p_typeText = ''string'', p_hasQuestionToken = False\<rparr>],
      md_jsDocs = [], md_returnType = ''User''\<rparr>"

definition serviceFile :: sourceFile where
  \<comment> \<open>\<open>export class UserService { public findUser(id: string): User {...} }\<close>\<close>
  "serviceFile =
     \<lparr>sf_filePath = ''/repo/src/userService.ts'',
      sf_functions = [],
      sf_variableDeclarations = [],
      sf_classes = [\<lparr>cd_isExported = True, cd_methods = [findUserMethod]\<rparr>]\<rparr>"

definition serviceProject :: "string \<Rightarrow> error + sourceFile" where
  "serviceProject path =
     (if path = ''src/userService.ts'' then Inr serviceFile else Inl (Thrown ''ENOENT''))"

definition serviceWorld :: world where
  "serviceWorld =
     quietWorld\<lparr>w_glob := (\<lambda>patterns ignore. if patterns = tsPatterns then Inr [''src/userService.ts''] else Inr []),
                w_newProject := (\<lambda>options. Inr serviceProject)\<rparr>"

definition orderFileA :: sourceFile where
  \<comment> \<open>\<open>src/a.ts\<close>: one exported \<open>getOrder\<close>\<close>
  "orderFileA =
     \<lparr>sf_filePath = ''/repo/src/a.ts'',
      sf_functions = [exportedFunction ''getOrder'' ''string''],
      sf_variableDeclarations = [], sf_classes = []\<rparr>"

definition orderFileB :: sourceFile where
  \<comment> \<open>\<open>src/b.ts\<close>: two exported functions named \<open>getOrder\<close>\<close>
  "orderFileB =
     \<lparr>sf_filePath = ''/repo/src/b.ts'',
      sf_functions = [exportedFunction ''getOrder'' ''number'', exportedFunction ''getOrder'' ''string''],
      sf_variableDeclarations = [], sf_classes = []\<rparr>"

definition twoFilesProject :: "string \<Rightarrow> error + sourceFile" where
  "twoFilesProject path =
     (if path = ''src/a.ts'' then Inr orderFileA
      else if path = ''src/b.ts'' then Inr orderFileB
      else Inl (Thrown ''ENOENT''))"

definition twoFilesWorld :: world where
  \<comment> \<open>a project of two source files with an exported \<open>getOrder\<close> in each, twice in the second\<close>
  "twoFilesWorld =
     quietWorld\<lparr>w_glob := (\<lambda>patterns ignore. if patterns = tsPatterns
                                               then Inr [''src/a.ts'', ''src/b.ts''] else Inr []),
                w_newProject := (\<lambda>options. Inr twoFilesProject)\<rparr>"

subsection \<open>The Schema Scanner in the words of the specification\<close>

definition parsesUnder :: "world \<Rightarrow> string \<Rightarrow> string \<Rightarrow> bool" where
  \<comment> \<open>the text parses under the grammar of the dialect: the parser can be made and
      \<open>feed\<close> returns\<close>
  "parsesUnder w dialect raw =
     (case w_Parser w dialect of
        Inl e \<Rightarrow> False
      | Inr feed \<Rightarrow> (case feed raw of Inl e \<Rightarrow> False | Inr results \<Rightarrow> True))"

fun namedTables :: "sqlTable option list \<Rightarrow> sqlTable list" where
  \<comment> \<open>the tables of a parse result that are present and have a name\<close>
  "namedTables [] = []"
| "namedTables (None # tables) = namedTables tables"
| "namedTables (Some t # tables) =
     (if tableName t = None then namedTables tables else t # namedTables tables)"

definition parsedTables :: "world \<Rightarrow> string \<Rightarrow> string \<Rightarrow> sqlTable list" where
  \<comment> \<open>the named tables that the parse under the dialect gives, in order\<close>
  "parsedTables w dialect raw =
     (case w_Parser w dialect of
        Inl e \<Rightarrow> []
      | Inr feed \<Rightarrow> (case feed raw of Inl e \<Rightarrow> [] | Inr results \<Rightarrow> namedTables (tablesOf results)))"


definition nameOf :: "sqlTable \<Rightarrow> string" where
  "nameOf t = (case tb_name t of None \<Rightarrow> [] | Some n \<Rightarrow> n)"


subsection \<open>Example SQL files\<close>

definition typedColumn :: "string \<Rightarrow> column" where
  "typedColumn name =
     \<lparr>col_name = name, col_type = Some \<lparr>ct_datatype = Some ''int'', ct_length = None\<rparr>,
      col_options = None\<rparr>"

definition simpleTable :: "string \<Rightarrow> column list \<Rightarrow> sqlTable" where
  "simpleTable name cols =
     \<lparr>tb_name = Some name, tb_columns = Some cols, tb_indexes = None, tb_foreignKeys = None\<rparr>"

definition feedTables :: "sqlTable option list \<Rightarrow> string \<Rightarrow> error + parserResults" where
  \<comment> \<open>a parser that accepts every text and gives these tables\<close>
  "feedTables tables raw = Inr (Many [Some \<lparr>sr_tables = Some tables\<rparr>])"

definition schemaWorld :: "sqlTable option list \<Rightarrow> sqlTable option list \<Rightarrow> world" where
  \<comment> \<open>one SQL file \<open>db/schema.sql\<close>, which the mysql grammar parses into the first list of
      tables and the postgresql grammar into the second\<close>
  "schemaWorld mysqlTables postgresqlTables =
     quietWorld
       \<lparr>w_glob := (\<lambda>patterns ignore. if patterns = sqlPatterns then Inr [''db/schema.sql''] else Inr []),
        w_readFileSync := (\<lambda>path. if path = ''db/schema.sql'' then Inr ''CREATE TABLE users (id INT);''
                                    else Inl (Thrown ''ENOENT'')),
        w_Parser := (\<lambda>dialect. if dialect = ''mysql'' then Inr (feedTables mysqlTables)
                                else if dialect = ''postgresql'' then Inr (feedTables postgresqlTables)
                                else Inl (Thrown ''Unsupported SQL dialect''))\<rparr>"

definition usersOnlyWorld :: world where
  \<comment> \<open>both grammars parse the file into one well-formed table\<close>
  "usersOnlyWorld =
     schemaWorld [Some (simpleTable ''users'' [typedColumn ''id''])]
       [Some (simpleTable ''users'' [typedColumn ''id''])]"

definition libraryFeed :: "(string \<Rightarrow> bool) \<Rightarrow> string \<Rightarrow> error + parserResults" where
  \<comment> \<open>\<open>feed\<close> and \<open>results\<close> of the imported parser: a text that the grammar accepts gives
      one result, the syntax tree of its statements, which has no member \<open>tables\<close>\<close>
  "libraryFeed accepts raw =
     (if accepts raw then Inr (Single (Some \<lparr>sr_tables = None\<rparr>)) else Inl (Thrown ''Syntax error''))"

definition libraryParser :: "(string \<Rightarrow> bool) \<Rightarrow> string \<Rightarrow> error + (string \<Rightarrow> error + parserResults)" where
  \<comment> \<open>the constructor of the imported parser, which knows the mysql grammar only\<close>
  "libraryParser accepts dialect =
     (if dialect = ''mysql'' then Inr (libraryFeed accepts)
      else Inl (Thrown ''Unsupported SQL dialect''))"

definition libraryWorld :: world where
  \<comment> \<open>one SQL file \<open>db/schema.sql\<close> of valid mysql, read with the imported parser\<close>
  "libraryWorld =
     quietWorld
       \<lparr>w_glob := (\<lambda>patterns ignore. if patterns = sqlPatterns then Inr [''db/schema.sql''] else Inr []),
        w_readFileSync := (\<lambda>path. if path = ''db/schema.sql'' then Inr ''CREATE TABLE users (id INT);''
                                    else Inl (Thrown ''ENOENT'')),
        w_Parser := libraryParser (\<lambda>raw. True)\<rparr>"

definition brokenProjectWorld :: world where
  \<comment> \<open>the same SQL file, in a directory where no \<open>Project\<close> can be constructed\<close>
  "brokenProjectWorld =
     usersOnlyWorld\<lparr>w_newProject := (\<lambda>options. Inl (Thrown ''Cannot construct Project''))\<rparr>"

definition usersResource :: "string \<Rightarrow> resource" where
  \<comment> \<open>the descriptor of the table \<open>users\<close> of the example file under a dialect\<close>
  "usersResource dialect =
     \<lparr>r_name = ''users'', r_type = ''sql_table'',
      r_columns = [(''id'', \<lparr>cs_type = Some ''int'', cs_nullable = True, cs_primaryKey = False,
                              cs_autoIncrement = False, cs_defaultValue = None, cs_length = None\<rparr>)],
      r_indexes = [], r_foreignKeys = [], r_file = ''db/schema.sql'', r_dialect = dialect,
      r_estimatedRows = ''unknown'', r_lastModified = ''2024-01-01T00:00:00.000Z''\<rparr>"

section \<open>Properties of the Type Normalizer\<close>

lemma parse_primitive_each:
  "parseTypeScriptType ''string'' = \<lparr>ti_type = Str ''string'', ti_description = None, ti_enum = None\<rparr>"
  "parseTypeScriptType ''number'' = \<lparr>ti_type = Str ''number'', ti_description = None, ti_enum = None\<rparr>"
  "parseTypeScriptType ''boolean'' = \<lparr>ti_type = Str ''boolean'', ti_description = None, ti_enum = None\<rparr>"
  "parseTypeScriptType ''object'' = \<lparr>ti_type = Str ''object'', ti_description = None, ti_enum = None\<rparr>"
  "parseTypeScriptType ''null'' = \<lparr>ti_type = Str ''null'', ti_description = None, ti_enum = None\<rparr>"
  "parseTypeScriptType ''any'' = \<lparr>ti_type = Str ''any'', ti_description = None, ti_enum = None\<rparr>"
  by code_simp+

lemma parse_primitive:
  "k \<in> set primitiveKinds \<Longrightarrow>
   parseTypeScriptType k = \<lparr>ti_type = Str k, ti_description = None, ti_enum = None\<rparr>"
  unfolding primitiveKinds_def using parse_primitive_each by auto






text \<open>
  The module's copy has no such guard.  It is not exported, and the scanner calls it with
  the printed text of a parameter type or of a return type only, which is never empty; on
  every text that is not empty the two copies agree.  Called on its own with the empty
  text, the module's copy passes the text on as the kind.
\<close>

lemma parseTypeScriptType_copies_agree:
  "t \<noteq> [] \<Longrightarrow> parseTypeScriptType_cli (Some t) = parseTypeScriptType t"
  by (simp add: parseTypeScriptType_cli_def)

lemma parseTypeScriptType_module_empty_text:
  "parseTypeScriptType [] = \<lparr>ti_type = Str [], ti_description = None, ti_enum = None\<rparr>"
  by code_simp

text \<open>
  Claim C9: the normalizer is a function of its argument alone, and when the kind it gives
  for a type text is one of the primitive kinds (string, number, boolean, object, null,
  any), normalizing that kind gives the same kind again, with no description and no
  enumeration; both copies agree there.
\<close>

theorem normalize_idempotent_on_primitive_kinds:
  assumes "ti_type (parseTypeScriptType typeText) = Str k" and "k \<in> set primitiveKinds"
  shows "ti_type (parseTypeScriptType k) = ti_type (parseTypeScriptType typeText)
    \<and> parseTypeScriptType k = \<lparr>ti_type = Str k, ti_description = None, ti_enum = None\<rparr>
    \<and> parseTypeScriptType_cli (Some k) = parseTypeScriptType k"
proof -
  from assms(2)
  have p: "parseTypeScriptType k = \<lparr>ti_type = Str k, ti_description = None, ti_enum = None\<rparr>"
    by (rule parse_primitive)
  from assms(2) have "k \<noteq> []" by (auto simp: primitiveKinds_def)
  then have "parseTypeScriptType_cli (Some k) = parseTypeScriptType k"
    by (simp add: parseTypeScriptType_cli_def)
  with p assms(1) show ?thesis by simp
qed

theorem normalize_idempotent_on_primitive_kinds_witness:
  "ti_type (parseTypeScriptType ''Date'') = Str ''string'' \<and> ''string'' \<in> set primitiveKinds
   \<and> ti_type (parseTypeScriptType ''string'') = ti_type (parseTypeScriptType ''Date'')"
proof -
  have a: "ti_type (parseTypeScriptType ''Date'') = Str ''string''" by code_simp
  have b: "''string'' \<in> set primitiveKinds" by (simp add: primitiveKinds_def)
  from normalize_idempotent_on_primitive_kinds [OF a b] a b show ?thesis by simp
qed

section \<open>Properties of the Name Classifier\<close>

lemma find_unique:
  assumes "p \<in> set xs" and "P p" and "\<And>q. q \<in> set xs \<Longrightarrow> P q \<Longrightarrow> q = p"
  shows "find P xs = Some p"
  using assms
proof (induction xs)
  case Nil
  then show ?case by simp
next
  case (Cons a xs)
  show ?case
  proof (cases "P a")
    case True
    then have "a = p" using Cons.prems(3) by simp
    with True show ?thesis by simp
  next
    case False
    with Cons.prems(1,2) have "p \<in> set xs" by auto
    then have "find P xs = Some p" using Cons.prems(2,3) by (intro Cons.IH) auto
    with False show ?thesis by simp
  qed
qed

lemma startsWithI_agree:
  assumes "startsWithI s p" and "startsWithI s q" and "length q \<le> length p"
  shows "map foldAscii q = take (length q) (map foldAscii p)"
proof -
  from assms(1) have "map foldAscii (take (length p) s) = map foldAscii p"
    by (simp add: startsWithI_def)
  then have "take (length q) (map foldAscii (take (length p) s)) = take (length q) (map foldAscii p)"
    by simp
  then have "map foldAscii (take (length q) s) = take (length q) (map foldAscii p)"
    using assms(3) by (simp add: take_map min_def)
  with assms(2) show ?thesis by (simp add: startsWithI_def)
qed

lemma startsWithI_clash: "startsWithI s p \<Longrightarrow> startsWithI s q \<Longrightarrow> clash p q"
  using startsWithI_agree [of s p q] startsWithI_agree [of s q p]
  by (auto simp: clash_def)

lemma fetchPrefixes_no_clash:
  "list_all (\<lambda>p. list_all (\<lambda>q. p = q \<or> \<not> clash p q) fetchPrefixes) fetchPrefixes"
  by code_simp

lemma matchPrefix_fetch:
  assumes "p \<in> set fetchPrefixes" and "startsWithI name p"
  shows "matchPrefix fetchPrefixes name = Some p"
  unfolding matchPrefix_def
proof (rule find_unique [where P = "startsWithI name", OF assms])
  fix q assume q: "q \<in> set fetchPrefixes" "startsWithI name q"
  from q(2) assms(2) have "clash q p" by (rule startsWithI_clash)
  with fetchPrefixes_no_clash q(1) assms(1) show "q = p"
    unfolding list_all_iff by blast
qed

text \<open>
  Claim C4, amended: when the name starts, in any letter case, with one of \<open>get\<close>,
  \<open>fetch\<close>, \<open>find\<close>, \<open>retrieve\<close>, \<open>load\<close>, \<open>query\<close> and some parameter name
  contains \<open>id\<close>, the description is \<open>Fetch a specific {suffix} by ID\<close>, the suffix
  being the name without the matched prefix, in lower case.  For \<open>getUserById\<close> that
  is \<open>Fetch a specific userbyid by ID\<close>.
\<close>

theorem fetch_description_by_id:
  assumes "p \<in> set fetchPrefixes" and "startsWithI name p"
    and "\<exists>k\<in>set (map fst params). includesStr (toLowerCase k) ''id''"
  shows "guessDescription name params
         = ''Fetch a specific '' @ toLowerCase (drop (length p) name) @ '' by ID''"
proof -
  have m: "matchPrefix fetchPrefixes name = Some p" using assms(1,2) by (rule matchPrefix_fetch)
  have h: "list_ex (\<lambda>k. includesStr (toLowerCase k) ''id'') (map fst params)"
    using assms(3) by (simp add: list_ex_iff)
  show ?thesis
    unfolding guessDescription_def Let_def stripPrefix_def using m h by simp
qed

text \<open>
  Claim C4, as stated: the description of \<open>getUserById\<close> with a parameter \<open>id\<close> starts
  with \<open>Fetch a specific user by ID\<close>.  The whole suffix \<open>UserById\<close> is lower-cased and
  inserted, so the description is \<open>Fetch a specific userbyid by ID\<close>, which does not
  start that way.
\<close>

theorem getUserById_description_counterexample:
  "guessDescription ''getUserById''
     (extractParameters [\<lparr>p_name = ''id'', p_typeText = ''string'', p_hasQuestionToken = False\<rparr>])
   = ''Fetch a specific userbyid by ID''
   \<and> \<not> startsWith (guessDescription ''getUserById''
     (extractParameters [\<lparr>p_name = ''id'', p_typeText = ''string'', p_hasQuestionToken = False\<rparr>]))
       ''Fetch a specific user by ID''"
  by code_simp

theorem fetch_description_by_id_witness:
  "''get'' \<in> set fetchPrefixes \<and> startsWithI ''getUserById'' ''get''
   \<and> (\<exists>k\<in>set (map fst [(''id'', ())]). includesStr (toLowerCase k) ''id'')
   \<and> guessDescription ''getUserById'' [(''id'', ())] = ''Fetch a specific userbyid by ID''"
proof -
  have a: "''get'' \<in> set fetchPrefixes" by (simp add: fetchPrefixes_def)
  have b: "startsWithI ''getUserById'' ''get''" by code_simp
  have c': "includesStr (toLowerCase ''id'') ''id''" by code_simp
  then have c: "\<exists>k\<in>set (map fst [(''id'', ())]). includesStr (toLowerCase k) ''id''" by simp
  have d: "toLowerCase (drop (length ''get'') ''getUserById'') = ''userbyid''" by code_simp
  from fetch_description_by_id [OF a b c] a b c d show ?thesis by simp
qed

section \<open>Properties of the Source Scanner\<close>

lemma keepUnseen_firstByKey:
  "keepUnseen key seen xs = firstByKey key (filter (\<lambda>x. key x \<notin> seen) xs)"
proof (induction xs arbitrary: seen)
  case Nil
  show ?case by simp
next
  case (Cons x xs)
  show ?case
  proof (cases "key x \<in> seen")
    case True
    then show ?thesis using Cons.IH [of seen] by simp
  next
    case False
    have "filter (\<lambda>y. key y \<noteq> key x) (filter (\<lambda>x. key x \<notin> seen) xs)
          = filter (\<lambda>y. key y \<notin> insert (key x) seen) xs"
      by (induction xs) auto
    with False show ?thesis using Cons.IH [of "insert (key x) seen"] by simp
  qed
qed

lemma firstByKey_subset: "set (firstByKey key xs) \<subseteq> set xs"
proof (induction key xs rule: firstByKey.induct)
  case (1 key)
  show ?case by simp
next
  case (2 key x xs)
  then show ?case by auto
qed

lemma firstByKey_distinct: "distinct (map key (firstByKey key xs))"
proof (induction key xs rule: firstByKey.induct)
  case (1 key)
  show ?case by simp
next
  case (2 key x xs)
  have "set (firstByKey key (filter (\<lambda>y. key y \<noteq> key x) xs)) \<subseteq> {y \<in> set xs. key y \<noteq> key x}"
    using firstByKey_subset [of key "filter (\<lambda>y. key y \<noteq> key x) xs"] by auto
  then have "key x \<notin> key ` set (firstByKey key (filter (\<lambda>y. key y \<noteq> key x) xs))" by auto
  with 2 show ?case by simp
qed

lemma distinct_map_transfer:
  "distinct (map k xs) \<Longrightarrow> (\<And>x y. x \<in> set xs \<Longrightarrow> y \<in> set xs \<Longrightarrow> h x = h y \<Longrightarrow> k x = k y)
   \<Longrightarrow> distinct (map h xs)"
proof (induction xs)
  case Nil
  show ?case by simp
next
  case (Cons a xs)
  have "h a \<notin> h ` set xs"
  proof
    assume "h a \<in> h ` set xs"
    then obtain y where y: "y \<in> set xs" "h a = h y" by auto
    then have "k a = k y" using Cons.prems(2) [of a y] by simp
    with y(1) Cons.prems(1) show False by auto
  qed
  moreover have "distinct (map h xs)" using Cons by auto
  ultimately show ?case by simp
qed

lemma step_cases:
  "step relative st c =
     (if eligible c \<and> candidateKey c \<notin> snd st
      then (fst st @ [candidateTool relative c], insert (candidateKey c) (snd st)) else st)"
  by (simp add: step_def processFunction_def eligible_def candidateKey_def candidateTool_def
      candidateName_def Let_def)

lemma foldl_step:
  "foldl (step relative) st cs
   = (fst st @ map (candidateTool relative) (keepUnseen candidateKey (snd st) (filter eligible cs)),
      snd st \<union> candidateKey ` set (filter eligible cs))"
proof (induction cs arbitrary: st)
  case Nil
  show ?case by simp
next
  case (Cons c cs)
  have "foldl (step relative) st (c # cs) = foldl (step relative) (step relative st c) cs"
    by simp
  also have "\<dots> = (fst (step relative st c)
        @ map (candidateTool relative)
            (keepUnseen candidateKey (snd (step relative st c)) (filter eligible cs)),
      snd (step relative st c) \<union> candidateKey ` set (filter eligible cs))"
    by (rule Cons.IH)
  also have "\<dots> = (fst st
        @ map (candidateTool relative)
            (keepUnseen candidateKey (snd st) (filter eligible (c # cs))),
      snd st \<union> candidateKey ` set (filter eligible (c # cs)))"
    by (auto simp: step_cases insert_absorb)
  finally show ?case .
qed

lemma processFile_step:
  "processFile project relative st filePath
   = foldl (step relative) st (candidates project [filePath])"
  by (simp add: processFile_def candidates_def step_def foldl_map split: sum.splits)

lemma candidates_Cons:
  "candidates project (f # fs) = candidates project [f] @ candidates project fs"
  by (simp add: candidates_def)

lemma foldl_processFile:
  "foldl (processFile project relative) st tsFiles
   = foldl (step relative) st (candidates project tsFiles)"
proof (induction tsFiles arbitrary: st)
  case Nil
  show ?case by (simp add: candidates_def)
next
  case (Cons f fs)
  have "foldl (processFile project relative) st (f # fs)
        = foldl (step relative) (processFile project relative st f) (candidates project fs)"
    by (simp add: Cons.IH)
  also have "\<dots> = foldl (step relative) st (candidates project [f] @ candidates project fs)"
    by (simp add: processFile_step)
  finally show ?case by (simp add: candidates_Cons [of project f fs])
qed

lemma candidate_file: "c \<in> set (candidates project tsFiles) \<Longrightarrow> fst c \<in> set tsFiles"
  by (auto simp: candidates_def split: sum.splits)

lemma find_filter_implied:
  "(\<And>y. P y \<Longrightarrow> Q y) \<Longrightarrow> find P (filter Q xs) = find P xs"
  by (induction xs) auto

lemma firstByKey_find:
  "find (\<lambda>d. key d = k) (firstByKey key xs) = find (\<lambda>d. key d = k) xs"
proof (induction key xs rule: firstByKey.induct)
  case (1 key)
  show ?case by simp
next
  case (2 key x xs)
  show ?case
  proof (cases "key x = k")
    case True
    then show ?thesis by simp
  next
    case False
    then have "find (\<lambda>d. key d = k) (filter (\<lambda>y. key y \<noteq> key x) xs) = find (\<lambda>d. key d = k) xs"
      by (intro find_filter_implied) auto
    with False 2 show ?thesis by simp
  qed
qed

lemma distinct_map_filter_le_1:
  "distinct (map f xs) \<Longrightarrow> length (filter (\<lambda>x. f x = k) xs) \<le> 1"
proof (induction xs)
  case Nil
  show ?case by simp
next
  case (Cons a xs)
  show ?case
  proof (cases "f a = k")
    case True
    with Cons.prems have "\<forall>x\<in>set xs. f x \<noteq> k" by (auto simp: image_iff)
    then have "filter (\<lambda>x. f x = k) xs = []"
      by (simp add: filter_empty_conv)
    with True show ?thesis by simp
  next
    case False
    with Cons show ?thesis by simp
  qed
qed

lemma firstByKey_exactly_one:
  assumes "c \<in> set xs"
  shows "length (filter (\<lambda>d. key d = key c) (firstByKey key xs)) = 1"
proof -
  from assms have "find (\<lambda>d. key d = key c) xs \<noteq> None" by (auto simp: find_None_iff)
  then have "find (\<lambda>d. key d = key c) (firstByKey key xs) \<noteq> None" by (simp add: firstByKey_find)
  then have "filter (\<lambda>d. key d = key c) (firstByKey key xs) \<noteq> []"
    by (auto simp: find_None_iff filter_empty_conv)
  moreover have "length (filter (\<lambda>d. key d = key c) (firstByKey key xs)) \<le> 1"
    by (rule distinct_map_filter_le_1) (rule firstByKey_distinct)
  ultimately show ?thesis by (cases "filter (\<lambda>d. key d = key c) (firstByKey key xs)") auto
qed

lemma colon_split:
  "colonFree a \<Longrightarrow> colonFree b \<Longrightarrow> a @ CHR '':'' # x = b @ CHR '':'' # y \<Longrightarrow> a = b \<and> x = y"
proof (induction a arbitrary: b)
  case Nil
  then show ?case by (cases b) (auto simp: colonFree_def)
next
  case (Cons c a)
  show ?case
  proof (cases b)
    case Nil
    with Cons.prems show ?thesis by (auto simp: colonFree_def)
  next
    case (Cons d b')
    with Cons.prems have "c = d" "a @ CHR '':'' # x = b' @ CHR '':'' # y"
      "colonFree a" "colonFree b'" by (auto simp: colonFree_def)
    with Cons.IH [of b'] Cons show ?thesis by simp
  qed
qed

lemma functionKey_paths:
  assumes "colonFree f1" and "colonFree f2" and "functionKey f1 n1 = functionKey f2 n2"
  shows "f1 = f2 \<and> n1 = n2"
  using colon_split [OF assms(1,2), of n1 n2] assms(3) by (simp add: functionKey_def)

lemma functionKey_names:
  assumes "colonFree n1" and "colonFree n2" and "functionKey f1 n1 = functionKey f2 n2"
  shows "f1 = f2 \<and> n1 = n2"
proof -
  from assms(3) have "rev (f1 @ '':'' @ n1) = rev (f2 @ '':'' @ n2)"
    by (simp only: functionKey_def)
  then have "rev n1 @ CHR '':'' # rev f1 = rev n2 @ CHR '':'' # rev f2" by simp
  moreover have "colonFree (rev n1)" "colonFree (rev n2)" using assms(1,2) by (simp_all add: colonFree_def)
  ultimately have "rev n1 = rev n2 \<and> rev f1 = rev f2" by (rule colon_split [rotated 2])
  then show ?thesis by simp
qed

lemma firstByKey_same_classes:
  "(\<And>x y. x \<in> set xs \<Longrightarrow> y \<in> set xs \<Longrightarrow> (k1 x = k1 y) = (k2 x = k2 y))
   \<Longrightarrow> firstByKey k1 xs = firstByKey k2 xs"
proof (induction k1 xs rule: firstByKey.induct)
  case (1 key)
  show ?case by simp
next
  case (2 key x xs)
  have f: "filter (\<lambda>y. key y \<noteq> key x) xs = filter (\<lambda>y. k2 y \<noteq> k2 x) xs"
    using "2.prems" by (intro filter_cong) auto
  have "firstByKey key (filter (\<lambda>y. key y \<noteq> key x) xs)
        = firstByKey k2 (filter (\<lambda>y. key y \<noteq> key x) xs)"
    using "2.prems" by (intro "2.IH") auto
  with f show ?case by simp
qed

lemma filter_singleton_find: "filter P xs = [y] \<Longrightarrow> find P xs = Some y"
proof (induction xs)
  case Nil
  then show ?case by simp
next
  case (Cons a xs)
  show ?case
  proof (cases "P a")
    case True
    with Cons.prems have "a = y" by simp
    with True show ?thesis by simp
  next
    case False
    with Cons.prems have "filter P xs = [y]" by simp
    then have "find P xs = Some y" by (rule Cons.IH)
    with False show ?thesis by simp
  qed
qed

lemma firstByKey_the_first:
  assumes "c \<in> set xs"
  shows "\<exists>d. find (\<lambda>d. key d = key c) xs = Some d
             \<and> filter (\<lambda>d. key d = key c) (firstByKey key xs) = [d]"
proof -
  from firstByKey_exactly_one [OF assms, of key]
  obtain d where d: "filter (\<lambda>d. key d = key c) (firstByKey key xs) = [d]"
    by (cases "filter (\<lambda>d. key d = key c) (firstByKey key xs)") auto
  then have "find (\<lambda>d. key d = key c) (firstByKey key xs) = Some d" by (rule filter_singleton_find)
  then have "find (\<lambda>d. key d = key c) xs = Some d" by (simp add: firstByKey_find)
  with d show ?thesis by simp
qed

lemma key_is_pair:
  assumes "list_all colonFree tsFiles
           \<or> list_all (\<lambda>c. colonFree (candidateName c)) (filter eligible (candidates project tsFiles))"
    and "x \<in> set (filter eligible (candidates project tsFiles))"
    and "y \<in> set (filter eligible (candidates project tsFiles))"
  shows "(candidateKey x = candidateKey y) = (candidatePair x = candidatePair y)"
proof
  assume "candidatePair x = candidatePair y"
  then show "candidateKey x = candidateKey y" by (simp add: candidatePair_def candidateKey_def)
next
  assume k: "candidateKey x = candidateKey y"
  from assms(1) show "candidatePair x = candidatePair y"
  proof
    assume "list_all colonFree tsFiles"
    then have all: "\<forall>f\<in>set tsFiles. colonFree f" by (simp only: list_all_iff)
    from assms(2,3) have "x \<in> set (candidates project tsFiles)" "y \<in> set (candidates project tsFiles)"
      by simp_all
    then have "fst x \<in> set tsFiles" "fst y \<in> set tsFiles" by (blast dest: candidate_file)+
    with all have "colonFree (fst x)" "colonFree (fst y)" by blast+
    with k show ?thesis
      using functionKey_paths [of "fst x" "fst y" "candidateName x" "candidateName y"]
      by (simp add: candidateKey_def candidatePair_def)
  next
    assume "list_all (\<lambda>c. colonFree (candidateName c)) (filter eligible (candidates project tsFiles))"
    then have "\<forall>c\<in>set (filter eligible (candidates project tsFiles)). colonFree (candidateName c)"
      by (simp only: list_all_iff)
    with assms(2,3) have "colonFree (candidateName x)" "colonFree (candidateName y)" by blast+
    with k show ?thesis
      using functionKey_names [of "candidateName x" "candidateName y" "fst x" "fst y"]
      by (simp add: candidateKey_def candidatePair_def)
  qed
qed

text \<open>
  Claim C1: in every run the pair (sourceFile, name) is unique in the emitted list; a file
  with two exported functions of one name yields exactly one descriptor for that name,
  built from the first of them in discovery order.  The code keys its set by the string
  \<open>filePath:name\<close>, which stands for the pair as long as the file paths or the names are
  free of colons (an identifier is).  Then the emitted list is the list of eligible
  candidates in discovery order (declarations, bindings, methods, file after file) in which
  each candidate removes all later ones with its file path and name, the pairs
  (sourceFile, name) of the list are distinct, and for every eligible candidate the list
  has exactly one descriptor with its file and name, the one built from the first eligible
  candidate with that file path and name.  \<open>sourceFile\<close> is the globbed path made
  relative, and two globbed paths are taken to stay different when made relative.
\<close>

theorem extractTools_first_occurrence:
  assumes "w_newProject w \<lparr>tsConfigFilePath = Some ''tsconfig.json'',
                            skipAddingFilesFromTsConfig = True\<rparr> = Inr project"
    and "w_glob w tsPatterns tsIgnore = Inr tsFiles"
    and "inj_on (w_relative w) (set tsFiles)"
    and "list_all colonFree tsFiles
         \<or> list_all (\<lambda>c. colonFree (candidateName c)) (filter eligible (candidates project tsFiles))"
  shows "\<exists>tools. extractTools w = Inr tools
    \<and> tools = map (candidateTool (w_relative w))
                (firstByKey candidatePair (filter eligible (candidates project tsFiles)))
    \<and> distinct (map (\<lambda>t. (t_file t, t_name t)) tools)
    \<and> (\<forall>c\<in>set (filter eligible (candidates project tsFiles)).
          \<exists>d. find (\<lambda>d. candidatePair d = candidatePair c)
                 (filter eligible (candidates project tsFiles)) = Some d
              \<and> filter (\<lambda>t. t_file t = w_relative w (fst c) \<and> t_name t = candidateName c) tools
                  = [candidateTool (w_relative w) d])"
proof -
  let ?elig = "filter eligible (candidates project tsFiles)"
  let ?kept = "firstByKey candidatePair ?elig"
  let ?tools = "map (candidateTool (w_relative w)) ?kept"
  have same: "firstByKey candidateKey ?elig = ?kept"
    by (rule firstByKey_same_classes) (rule key_is_pair [OF assms(4)])
  have run: "extractTools w = Inr ?tools"
    using assms(1,2)
    by (simp add: extractTools_def foldl_processFile foldl_step keepUnseen_firstByKey same)
  have sub: "set ?kept \<subseteq> set ?elig" by (rule firstByKey_subset)
  have files: "\<And>x. x \<in> set ?elig \<Longrightarrow> fst x \<in> set tsFiles"
  proof -
    fix x assume "x \<in> set ?elig"
    then have "x \<in> set (candidates project tsFiles)" by simp
    then show "fst x \<in> set tsFiles" by (rule candidate_file)
  qed
  have pair_of_tool: "\<And>x y. x \<in> set ?elig \<Longrightarrow> y \<in> set ?elig \<Longrightarrow>
      ((w_relative w (fst x), candidateName x) = (w_relative w (fst y), candidateName y))
      = (candidatePair x = candidatePair y)"
  proof -
    fix x y assume "x \<in> set ?elig" "y \<in> set ?elig"
    then have "fst x \<in> set tsFiles" "fst y \<in> set tsFiles" by (blast dest: files)+
    with assms(3) have "(w_relative w (fst x) = w_relative w (fst y)) = (fst x = fst y)"
      by (simp add: inj_on_eq_iff)
    then show "((w_relative w (fst x), candidateName x) = (w_relative w (fst y), candidateName y))
      = (candidatePair x = candidatePair y)" by (simp add: candidatePair_def)
  qed
  have tool_fields: "\<And>d. t_file (candidateTool (w_relative w) d) = w_relative w (fst d)
                        \<and> t_name (candidateTool (w_relative w) d) = candidateName d"
    by (simp add: candidateTool_def buildTool_def Let_def)
  have d: "distinct (map candidatePair ?kept)" by (rule firstByKey_distinct)
  have "distinct (map (\<lambda>c. (w_relative w (fst c), candidateName c)) ?kept)"
  proof (rule distinct_map_transfer [OF d])
    fix x y assume "x \<in> set ?kept" "y \<in> set ?kept"
    assume "(w_relative w (fst x), candidateName x) = (w_relative w (fst y), candidateName y)"
    moreover from \<open>x \<in> set ?kept\<close> \<open>y \<in> set ?kept\<close> sub have "x \<in> set ?elig" "y \<in> set ?elig"
      by blast+
    ultimately show "candidatePair x = candidatePair y" using pair_of_tool [of x y] by blast
  qed
  moreover have "(\<lambda>t. (t_file t, t_name t)) \<circ> candidateTool (w_relative w)
                 = (\<lambda>c. (w_relative w (fst c), candidateName c))"
    by (simp add: fun_eq_iff tool_fields)
  ultimately have dist: "distinct (map (\<lambda>t. (t_file t, t_name t)) ?tools)" by simp
  have each: "\<forall>c\<in>set ?elig.
          \<exists>d. find (\<lambda>d. candidatePair d = candidatePair c) ?elig = Some d
              \<and> filter (\<lambda>t. t_file t = w_relative w (fst c) \<and> t_name t = candidateName c) ?tools
                  = [candidateTool (w_relative w) d]"
  proof
    fix c assume c: "c \<in> set ?elig"
    from firstByKey_the_first [OF c, of candidatePair] obtain d where
      d1: "find (\<lambda>d. candidatePair d = candidatePair c) ?elig = Some d"
      and d2: "filter (\<lambda>d. candidatePair d = candidatePair c) ?kept = [d]" by blast
    have "filter (\<lambda>t. t_file t = w_relative w (fst c) \<and> t_name t = candidateName c) ?tools
          = map (candidateTool (w_relative w))
              (filter (\<lambda>x. (w_relative w (fst x), candidateName x)
                              = (w_relative w (fst c), candidateName c)) ?kept)"
      by (simp add: filter_map comp_def tool_fields)
    also have "filter (\<lambda>x. (w_relative w (fst x), candidateName x)
                              = (w_relative w (fst c), candidateName c)) ?kept
               = filter (\<lambda>d. candidatePair d = candidatePair c) ?kept"
    proof (rule filter_cong [OF refl])
      fix x assume "x \<in> set ?kept"
      with sub have "x \<in> set ?elig" by blast
      then show "((w_relative w (fst x), candidateName x) = (w_relative w (fst c), candidateName c))
                 = (candidatePair x = candidatePair c)" using c by (rule pair_of_tool)
    qed
    finally show "\<exists>d. find (\<lambda>d. candidatePair d = candidatePair c) ?elig = Some d
              \<and> filter (\<lambda>t. t_file t = w_relative w (fst c) \<and> t_name t = candidateName c) ?tools
                  = [candidateTool (w_relative w) d]"
      using d1 d2 by simp
  qed
  show ?thesis
  proof (intro exI conjI)
    show "extractTools w = Inr ?tools" by (rule run)
    show "?tools = ?tools" ..
    show "distinct (map (\<lambda>t. (t_file t, t_name t)) ?tools)" by (rule dist)
    show "\<forall>c\<in>set ?elig.
          \<exists>d. find (\<lambda>d. candidatePair d = candidatePair c) ?elig = Some d
              \<and> filter (\<lambda>t. t_file t = w_relative w (fst c) \<and> t_name t = candidateName c) ?tools
                  = [candidateTool (w_relative w) d]" by (rule each)
  qed
qed

text \<open>
  A run over two files, each with an exported \<open>getOrder\<close>, the second with two of them:
  one descriptor for each file, the one of the second file built from its first
  \<open>getOrder\<close>.
\<close>

lemma twoFilesWorld_kept:
  "map (candidateTool (\<lambda>path. path))
     (firstByKey candidatePair
        (filter eligible (candidates twoFilesProject [''src/a.ts'', ''src/b.ts''])))
   = [buildTool (\<lambda>path. path) ''src/a.ts'' ''getOrder''
        (Function (exportedFunction ''getOrder'' ''string'')),
      buildTool (\<lambda>path. path) ''src/b.ts'' ''getOrder''
        (Function (exportedFunction ''getOrder'' ''number''))]"
  by code_simp

theorem extractTools_first_occurrence_witness:
  "w_newProject twoFilesWorld \<lparr>tsConfigFilePath = Some ''tsconfig.json'',
                                 skipAddingFilesFromTsConfig = True\<rparr> = Inr twoFilesProject
   \<and> w_glob twoFilesWorld tsPatterns tsIgnore = Inr [''src/a.ts'', ''src/b.ts'']
   \<and> inj_on (w_relative twoFilesWorld) (set [''src/a.ts'', ''src/b.ts''])
   \<and> list_all colonFree [''src/a.ts'', ''src/b.ts'']
   \<and> extractTools twoFilesWorld
       = Inr [buildTool (\<lambda>path. path) ''src/a.ts'' ''getOrder''
                (Function (exportedFunction ''getOrder'' ''string'')),
              buildTool (\<lambda>path. path) ''src/b.ts'' ''getOrder''
                (Function (exportedFunction ''getOrder'' ''number''))]"
proof -
  have a: "w_newProject twoFilesWorld \<lparr>tsConfigFilePath = Some ''tsconfig.json'',
                                 skipAddingFilesFromTsConfig = True\<rparr> = Inr twoFilesProject"
    by (simp add: twoFilesWorld_def)
  have b: "w_glob twoFilesWorld tsPatterns tsIgnore = Inr [''src/a.ts'', ''src/b.ts'']"
    by (simp add: twoFilesWorld_def)
  have r: "w_relative twoFilesWorld = (\<lambda>path. path)" by (simp add: twoFilesWorld_def quietWorld_def)
  have c: "inj_on (w_relative twoFilesWorld) (set [''src/a.ts'', ''src/b.ts''])"
    unfolding r by (rule inj_onI) simp
  have d': "list_all colonFree [''src/a.ts'', ''src/b.ts'']" by code_simp
  then have d: "list_all colonFree [''src/a.ts'', ''src/b.ts'']
     \<or> list_all (\<lambda>c. colonFree (candidateName c))
          (filter eligible (candidates twoFilesProject [''src/a.ts'', ''src/b.ts'']))" by (rule disjI1)
  from extractTools_first_occurrence [OF a b c d] obtain tools where
    "extractTools twoFilesWorld = Inr tools"
    "tools = map (candidateTool (w_relative twoFilesWorld))
               (firstByKey candidatePair
                  (filter eligible (candidates twoFilesProject [''src/a.ts'', ''src/b.ts''])))"
    by blast
  then have "extractTools twoFilesWorld
       = Inr [buildTool (\<lambda>path. path) ''src/a.ts'' ''getOrder''
                (Function (exportedFunction ''getOrder'' ''string'')),
              buildTool (\<lambda>path. path) ''src/b.ts'' ''getOrder''
                (Function (exportedFunction ''getOrder'' ''number''))]"
    unfolding r twoFilesWorld_kept by simp
  with a b c d' show ?thesis by (intro conjI)
qed

text \<open>
  Claim C3: a method of an exported class that is public (or not private), has a name and
  passes the Symbol Filter produces a Tool Descriptor.  The scanner collects such methods
  as candidates, but a method node has no \<open>isExported\<close> member, so its export status is
  read from its own modifiers, where \<open>export\<close> cannot occur: the public method
  \<open>findUser\<close> of the exported class \<open>UserService\<close> is a candidate, passes the filter,
  and the run emits nothing.
\<close>

theorem exported_class_method_dropped:
  "allFunctions serviceFile = [Method findUserMethod]
   \<and> PublicKeyword \<in> set (md_modifiers findUserMethod)
   \<and> isValidToolFunction ''findUser'' (sf_filePath serviceFile)
   \<and> extractTools serviceWorld = Inr []"
  by code_simp

lemma method_without_export_modifier_skipped:
  "ExportKeyword \<notin> set (md_modifiers m) \<Longrightarrow> processFunction relative filePath nodeFilePath st (Method m) = st"
  by (simp add: processFunction_def exportStatus_def Let_def)


lemma matchPrefix_None: "(matchPrefix alts n = None) = (\<not> list_ex (startsWithI n) alts)"
  by (auto simp: matchPrefix_def find_None_iff list_ex_iff)

lemma isValidToolFunction_checks:
  "isValidToolFunction n path =
     (\<not> (startsWith n ''_'' \<or> startsWith n ''#'')
      \<and> \<not> list_ex (startsWithI n) [''test'', ''spec'', ''mock'', ''stub'']
      \<and> \<not> list_ex (startsWithI n) [''helper'', ''util'', ''internal'', ''private'']
      \<and> \<not> list_ex (startsWithI n) [''constructor'', ''init'']
      \<and> \<not> ((case n of [] \<Rightarrow> False | c # cs \<Rightarrow> isUpperAZ c) \<and> includesStr path ''component''))"
  unfolding isValidToolFunction_def matchPrefix_None by simp

lemma filtered_names_each:
  "startsWith ''_helper'' ''_''" "startsWith ''#priv'' ''#''"
  "list_ex (startsWithI ''testFoo'') [''test'', ''spec'', ''mock'', ''stub'']"
  "list_ex (startsWithI ''mockBar'') [''test'', ''spec'', ''mock'', ''stub'']"
  "list_ex (startsWithI ''ConstructorInit'') [''constructor'', ''init'']"
  by code_simp+

lemma filtered_names_invalid:
  assumes "name \<in> {''_helper'', ''#priv'', ''testFoo'', ''mockBar'', ''ConstructorInit''}"
  shows "\<not> isValidToolFunction name path"
  using assms filtered_names_each unfolding isValidToolFunction_checks by auto

lemma extractTools_names_valid:
  assumes "extractTools w = Inr tools" and "t \<in> set tools"
  shows "\<exists>path. isValidToolFunction (t_name t) path"
proof -
  from assms(1) obtain project tsFiles where
    "tools = fst (foldl (processFile project (w_relative w)) ([], {}) tsFiles)"
    by (auto simp: extractTools_def split: sum.splits)
  then have "tools = map (candidateTool (w_relative w))
      (firstByKey candidateKey (filter eligible (candidates project tsFiles)))"
    by (simp add: foldl_processFile foldl_step keepUnseen_firstByKey)
  with assms(2) obtain c where c: "c \<in> set (firstByKey candidateKey (filter eligible (candidates project tsFiles)))"
    and t: "t = candidateTool (w_relative w) c" by auto
  from c have "eligible c"
    using firstByKey_subset [of candidateKey "filter eligible (candidates project tsFiles)"] by auto
  moreover from t have "t_name t = candidateName c"
    by (simp add: candidateTool_def buildTool_def Let_def)
  ultimately show ?thesis by (auto simp: eligible_def)
qed

text \<open>
  Claim C8: a symbol named \<open>_helper\<close>, \<open>#priv\<close>, \<open>testFoo\<close>, \<open>mockBar\<close> or
  \<open>ConstructorInit\<close> is rejected by the Symbol Filter whatever the file, and is in the
  output of no run, whatever its export status; the filter accepts a name exactly when none
  of its five checks matches, so each check rejects on its own.
\<close>

theorem filtered_names_never_extracted:
  assumes "name \<in> {''_helper'', ''#priv'', ''testFoo'', ''mockBar'', ''ConstructorInit''}"
  shows "(\<forall>path. \<not> isValidToolFunction name path)
    \<and> (\<forall>w tools. extractTools w = Inr tools \<longrightarrow> name \<notin> t_name ` set tools)
    \<and> (\<forall>n path. isValidToolFunction n path =
          (\<not> (startsWith n ''_'' \<or> startsWith n ''#'')
           \<and> \<not> list_ex (startsWithI n) [''test'', ''spec'', ''mock'', ''stub'']
           \<and> \<not> list_ex (startsWithI n) [''helper'', ''util'', ''internal'', ''private'']
           \<and> \<not> list_ex (startsWithI n) [''constructor'', ''init'']
           \<and> \<not> ((case n of [] \<Rightarrow> False | c # cs \<Rightarrow> isUpperAZ c) \<and> includesStr path ''component'')))"
proof (intro conjI allI impI)
  fix path show "\<not> isValidToolFunction name path" using assms by (rule filtered_names_invalid)
next
  fix w tools assume e: "extractTools w = Inr tools"
  show "name \<notin> t_name ` set tools"
  proof
    assume "name \<in> t_name ` set tools"
    then obtain t where "t \<in> set tools" "t_name t = name" by auto
    with extractTools_names_valid [OF e] obtain path where "isValidToolFunction name path" by auto
    with filtered_names_invalid [OF assms] show False by simp
  qed
next
  fix n path
  show "isValidToolFunction n path =
          (\<not> (startsWith n ''_'' \<or> startsWith n ''#'')
           \<and> \<not> list_ex (startsWithI n) [''test'', ''spec'', ''mock'', ''stub'']
           \<and> \<not> list_ex (startsWithI n) [''helper'', ''util'', ''internal'', ''private'']
           \<and> \<not> list_ex (startsWithI n) [''constructor'', ''init'']
           \<and> \<not> ((case n of [] \<Rightarrow> False | c # cs \<Rightarrow> isUpperAZ c) \<and> includesStr path ''component''))"
    by (rule isValidToolFunction_checks)
qed


lemma usersWorld_tools:
  "extractTools usersWorld
   = Inr [buildTool (\<lambda>path. path) ''src/users.ts'' ''getUser''
            (Function (exportedFunction ''getUser'' ''string''))]"
  by code_simp

theorem filtered_names_never_extracted_witness:
  "''testFoo'' \<in> {''_helper'', ''#priv'', ''testFoo'', ''mockBar'', ''ConstructorInit''}
   \<and> Function (exportedFunction ''testFoo'' ''string'') \<in> set (allFunctions usersFile)
   \<and> \<not> isValidToolFunction ''testFoo'' (sf_filePath usersFile)
   \<and> (\<exists>tools. extractTools usersWorld = Inr tools \<and> ''testFoo'' \<notin> t_name ` set tools)"
proof -
  have a: "''testFoo'' \<in> {''_helper'', ''#priv'', ''testFoo'', ''mockBar'', ''ConstructorInit''}"
    by simp
  have b: "Function (exportedFunction ''testFoo'' ''string'') \<in> set (allFunctions usersFile)"
    by (simp add: allFunctions_def usersFile_def)
  from filtered_names_never_extracted [OF a] a b usersWorld_tools show ?thesis by blast
qed

section \<open>Properties of the Schema Scanner\<close>

lemma processTables_append:
  "processTables cols w file dialect (xs @ ys) resources =
     (case processTables cols w file dialect xs resources of
        (None, resources') \<Rightarrow> processTables cols w file dialect ys resources'
      | (Some e, resources') \<Rightarrow> (Some e, resources'))"
  by (induction xs arbitrary: resources) (auto split: option.splits sum.splits)

lemma processTables_grows:
  "\<exists>extra. snd (processTables cols w file dialect tables resources) = resources @ extra"
proof (induction tables arbitrary: resources)
  case Nil
  show ?case by simp
next
  case (Cons table tables)
  show ?case
  proof (cases table)
    case None
    then show ?thesis using Cons.IH [of resources] by simp
  next
    case (Some t)
    show ?thesis
    proof (cases "tableName t")
      case None
      with Some show ?thesis using Cons.IH [of resources] by simp
    next
      case (Some name)
      show ?thesis
      proof (cases "buildResource cols w file dialect name t")
        case (Inl e)
        with \<open>table = Some t\<close> Some show ?thesis by simp
      next
        case (Inr r)
        from Cons.IH [of "resources @ [r]"] obtain extra where
          "snd (processTables cols w file dialect tables (resources @ [r])) = (resources @ [r]) @ extra"
          by blast
        with \<open>table = Some t\<close> Some Inr show ?thesis by simp
      qed
    qed
  qed
qed

lemma tryDialects_grows:
  "\<exists>extra. ss_resources (snd (tryDialects cols w file raw ds st)) = ss_resources st @ extra"
proof (induction ds arbitrary: st)
  case Nil
  show ?case by simp
next
  case (Cons dialect rest)
  let ?st1 = "st\<lparr>ss_parserCalls := ss_parserCalls st @ [(file, dialect)]\<rparr>"
  have st1: "\<exists>extra. ss_resources (snd (tryDialects cols w file raw rest ?st1)) = ss_resources st @ extra"
    using Cons.IH [of ?st1] by simp
  show ?case
  proof (cases "w_Parser w dialect")
    case (Inl e)
    with st1 show ?thesis by simp
  next
    case (Inr feed)
    show ?thesis
    proof (cases "feed raw")
      case (Inl e)
      with Inr st1 show ?thesis by simp
    next
      case results: (Inr results)
      obtain err resources where p:
        "processTables cols w file dialect (tablesOf results) (ss_resources st) = (err, resources)"
        by (cases "processTables cols w file dialect (tablesOf results) (ss_resources st)")
      with processTables_grows [of cols w "file" dialect "tablesOf results" "ss_resources st"]
      obtain m1 where m1: "resources = ss_resources st @ m1" by auto
      show ?thesis
      proof (cases err)
        case None
        with Inr results p m1 show ?thesis by simp
      next
        case (Some e)
        from Cons.IH [of "?st1\<lparr>ss_resources := resources\<rparr>"] obtain m2 where
          "ss_resources (snd (tryDialects cols w file raw rest (?st1\<lparr>ss_resources := resources\<rparr>)))
           = resources @ m2" by auto
        with Some Inr results p m1 show ?thesis by simp
      qed
    qed
  qed
qed

text \<open>
  What an attempt has appended before it throws stays in the list, and the loop goes on to
  the next dialect.
\<close>

lemma partial_emission_retained:
  assumes "w_Parser w dialect = Inr feed" and "feed raw = Inr results"
    and "tablesOf results = before @ Some bad # extra"
    and "processTables cols w file dialect before (ss_resources st) = (None, ss_resources st @ emitted)"
    and "tableName bad = Some name"
    and "buildResource cols w file dialect name bad = Inl e"
  shows "tryDialects cols w file raw (dialect # rest) st
         = tryDialects cols w file raw rest
             (st\<lparr>ss_parserCalls := ss_parserCalls st @ [(file, dialect)],
                 ss_resources := ss_resources st @ emitted\<rparr>)
    \<and> (\<exists>later. ss_resources (snd (tryDialects cols w file raw (dialect # rest) st))
                 = ss_resources st @ emitted @ later)"
proof -
  have p: "processTables cols w file dialect (tablesOf results) (ss_resources st)
           = (Some e, ss_resources st @ emitted)"
    using assms(3-6) by (simp add: processTables_append)
  have eq: "tryDialects cols w file raw (dialect # rest) st
         = tryDialects cols w file raw rest
             (st\<lparr>ss_parserCalls := ss_parserCalls st @ [(file, dialect)],
                 ss_resources := ss_resources st @ emitted\<rparr>)"
    using assms(1,2) p by simp
  from tryDialects_grows [of cols w "file" raw rest
      "st\<lparr>ss_parserCalls := ss_parserCalls st @ [(file, dialect)],
          ss_resources := ss_resources st @ emitted\<rparr>"]
  obtain later where "ss_resources (snd (tryDialects cols w file raw rest
      (st\<lparr>ss_parserCalls := ss_parserCalls st @ [(file, dialect)],
          ss_resources := ss_resources st @ emitted\<rparr>)))
     = (ss_resources st @ emitted) @ later" by auto
  with eq show ?thesis by simp
qed




lemma processTables_complete:
  assumes "\<And>t name. t \<in> set (namedTables tables) \<Longrightarrow>
             \<exists>r. buildResource cols w path dialect name t = Inr r
                 \<and> r_name r = name \<and> r_dialect r = dialect \<and> r_file r = w_relative w path"
  shows "\<exists>new. processTables cols w path dialect tables resources = (None, resources @ new)
               \<and> (\<forall>r\<in>set new. r_dialect r = dialect \<and> r_file r = w_relative w path)
               \<and> map r_name new = map nameOf (namedTables tables)"
  using assms
proof (induction tables arbitrary: resources)
  case Nil
  show ?case by simp
next
  case (Cons table tables)
  show ?case
  proof (cases table)
    case None
    with Cons.prems have "\<And>t name. t \<in> set (namedTables tables) \<Longrightarrow>
             \<exists>r. buildResource cols w path dialect name t = Inr r
                 \<and> r_name r = name \<and> r_dialect r = dialect \<and> r_file r = w_relative w path"
      by simp
    from Cons.IH [OF this, of resources] None show ?thesis by simp
  next
    case (Some t)
    show ?thesis
    proof (cases "tableName t")
      case None
      with Some Cons.prems have "\<And>t name. t \<in> set (namedTables tables) \<Longrightarrow>
             \<exists>r. buildResource cols w path dialect name t = Inr r
                 \<and> r_name r = name \<and> r_dialect r = dialect \<and> r_file r = w_relative w path"
        by simp
      from Cons.IH [OF this, of resources] None Some show ?thesis by simp
    next
      case name: (Some name)
      with Some Cons.prems have rest: "\<And>t name. t \<in> set (namedTables tables) \<Longrightarrow>
             \<exists>r. buildResource cols w path dialect name t = Inr r
                 \<and> r_name r = name \<and> r_dialect r = dialect \<and> r_file r = w_relative w path"
        by simp
      from Some name Cons.prems [of t name] obtain r where
        r: "buildResource cols w path dialect name t = Inr r"
           "r_name r = name" "r_dialect r = dialect" "r_file r = w_relative w path"
        by auto
      from Cons.IH [OF rest, of "resources @ [r]"] obtain new where
        new: "processTables cols w path dialect tables (resources @ [r])
              = (None, (resources @ [r]) @ new)"
          "\<forall>r\<in>set new. r_dialect r = dialect \<and> r_file r = w_relative w path"
          "map r_name new = map nameOf (namedTables tables)"
        by blast
      have n: "nameOf t = name" using name
        by (auto simp: nameOf_def tableName_def split: option.splits if_splits)
      have "processTables cols w path dialect (table # tables) resources
            = (None, resources @ (r # new))"
        using Some name r(1) new(1) by simp
      moreover have "\<forall>x\<in>set (r # new). r_dialect x = dialect \<and> r_file x = w_relative w path"
        using r(3,4) new(2) by simp
      moreover have "map r_name (r # new) = map nameOf (namedTables (table # tables))"
        using Some name r(2) new(3) n by simp
      ultimately show ?thesis by blast
    qed
  qed
qed

lemma extractColumns_cli_total: "\<exists>columns'. extractColumns_cli cs columns = Inr columns'"
  by (induction cs arbitrary: columns) auto


lemma buildResource_cli_stat:
  assumes "w_statSync w path = Inr mtime"
  shows "\<exists>r. buildResource extractColumns_cli w path dialect name t = Inr r
             \<and> r_name r = name \<and> r_dialect r = dialect \<and> r_file r = w_relative w path"
proof -
  obtain columns where
    "extractColumns_cli (case tb_columns t of None \<Rightarrow> [] | Some cs \<Rightarrow> cs) [] = Inr columns"
    using extractColumns_cli_total by blast
  with assms show ?thesis by (simp add: buildResource_def)
qed


text \<open>
  The command-line copy reads a column without type as \<open>unknown\<close>, and needs the
  modification time only.
\<close>

lemma mysql_success_stops_the_loop_cli:
  assumes "w_existsSync w path" and "w_readFileSync w path = Inr raw" and "trim raw \<noteq> []"
    and "parsesUnder w ''mysql'' raw"
    and "w_statSync w path = Inr mtime"
  shows "\<exists>new. processSqlFile_cli w st path
               = st\<lparr>ss_parserCalls := ss_parserCalls st @ [(path, ''mysql'')],
                    ss_resources := ss_resources st @ new\<rparr>
             \<and> (\<forall>r\<in>set new. r_dialect r = ''mysql'' \<and> r_file r = w_relative w path)
             \<and> map r_name new = map nameOf (parsedTables w ''mysql'' raw)"
proof -
  from assms(4) obtain feed results where
    p: "w_Parser w ''mysql'' = Inr feed" "feed raw = Inr results"
    by (auto simp: parsesUnder_def split: sum.splits)
  then have t: "parsedTables w ''mysql'' raw = namedTables (tablesOf results)"
    by (simp add: parsedTables_def)
  have "\<exists>new. processTables extractColumns_cli w path ''mysql'' (tablesOf results) (ss_resources st)
                = (None, ss_resources st @ new)
             \<and> (\<forall>r\<in>set new. r_dialect r = ''mysql'' \<and> r_file r = w_relative w path)
             \<and> map r_name new = map nameOf (namedTables (tablesOf results))"
    by (rule processTables_complete) (rule buildResource_cli_stat [OF assms(5)])
  then obtain new where
    new: "processTables extractColumns_cli w path ''mysql'' (tablesOf results) (ss_resources st)
          = (None, ss_resources st @ new)"
      "\<forall>r\<in>set new. r_dialect r = ''mysql'' \<and> r_file r = w_relative w path"
      "map r_name new = map nameOf (namedTables (tablesOf results))"
    by blast
  have "processSqlFile_cli w st path
        = st\<lparr>ss_parserCalls := ss_parserCalls st @ [(path, ''mysql'')],
             ss_resources := ss_resources st @ new\<rparr>"
    using assms(1,2,3) p new(1) by (simp add: processSqlFile_cli_def dialects_def)
  with new(2,3) t show ?thesis by auto
qed


text \<open>
  The same on a parse result that lists a table.
\<close>

lemma mysql_success_with_tables:
  "processSqlFile usersOnlyWorld \<lparr>ss_resources = [], ss_parserCalls = []\<rparr> ''db/schema.sql''
   = \<lparr>ss_resources = [usersResource ''mysql''], ss_parserCalls = [(''db/schema.sql'', ''mysql'')]\<rparr>"
  by code_simp

lemma library_run:
  "extractResources libraryWorld = Inr []"
  "ss_parserCalls (scanSqlFiles libraryWorld [''db/schema.sql'']) = [(''db/schema.sql'', ''mysql'')]"
  by code_simp+

text \<open>
  With the imported parser no attempt appends a descriptor: the list of descriptors of a
  run is empty.
\<close>

lemma tryDialects_library:
  assumes "w_Parser w = libraryParser accepts"
  shows "ss_resources (snd (tryDialects cols w path raw ds st)) = ss_resources st"
proof (induction ds arbitrary: st)
  case Nil
  show ?case by simp
next
  case (Cons dialect rest)
  let ?st1 = "st\<lparr>ss_parserCalls := ss_parserCalls st @ [(path, dialect)]\<rparr>"
  have next_one: "ss_resources (snd (tryDialects cols w path raw rest ?st1)) = ss_resources st"
    using Cons.IH [of ?st1] by simp
  show ?case
  proof (cases "dialect = ''mysql'' \<and> accepts raw")
    case True
    then show ?thesis
      using assms by (simp add: libraryParser_def libraryFeed_def tablesOf_def)
  next
    case False
    then show ?thesis
      using assms next_one by (auto simp: libraryParser_def libraryFeed_def)
  qed
qed

lemma scanSqlFiles_library:
  assumes "w_Parser w = libraryParser accepts"
  shows "ss_resources (foldl (processSqlFile w) st sqlFiles) = ss_resources st"
proof (induction sqlFiles arbitrary: st)
  case Nil
  show ?case by simp
next
  case (Cons f fs)
  have "ss_resources (processSqlFile w st f) = ss_resources st"
    using tryDialects_library [OF assms, of extractColumns f]
    by (simp add: processSqlFile_def split: sum.splits)
  with Cons.IH [of "processSqlFile w st f"] show ?case by simp
qed

lemma extractResources_library:
  assumes "w_Parser w = libraryParser accepts" and "extractResources w = Inr resources"
  shows "resources = []"
  using assms(2) scanSqlFiles_library [OF assms(1), of "\<lparr>ss_resources = [], ss_parserCalls = []\<rparr>"]
  by (auto simp: extractResources_def scanSqlFiles_def split: sum.splits)

section \<open>Properties of the Pipeline Orchestrator\<close>

lemma generateMCPManifest_rejects:
  "extractTools w = Inl e \<Longrightarrow> generateMCPManifest w = Rejected e"
  "extractTools w = Inr tools \<Longrightarrow> extractResources w = Inl e \<Longrightarrow> generateMCPManifest w = Rejected e"
  by (simp_all add: generateMCPManifest_def)

lemma generateMCPManifest_cli_substitutes:
  assumes "w_glob w tsPatterns statisticsIgnore = Inr ts"
    and "w_glob w sqlPatterns statisticsIgnore = Inr sqls"
  shows "extractTools_cli w = Inl e \<Longrightarrow> extractResources_cli w = Returned resources \<Longrightarrow>
           \<exists>m. generateMCPManifest_cli w = Returned m \<and> m_tools m = []
               \<and> m_resources m = map resourceEntry resources"
    and "extractTools_cli w = Inr tools \<Longrightarrow> extractResources_cli w = Rejected e \<Longrightarrow>
           \<exists>m. generateMCPManifest_cli w = Returned m \<and> m_tools m = map toolEntry tools
               \<and> m_resources m = []"
  using assms by (simp_all add: generateMCPManifest_cli_def assemble_def)

lemma generateMCPManifest_cli_exits:
  "w_glob w sqlPatterns sqlIgnore = Inr sqlFiles \<Longrightarrow> \<not> w_importParser w \<Longrightarrow>
   generateMCPManifest_cli w = Exited 1"
  by (simp add: generateMCPManifest_cli_def extractResources_cli_def)

text \<open>
  Claim C2: when one scanner fails as a whole, the orchestrator puts an empty list in its
  place and the result still has the other scanner's list.  The command-line copy does so
  for a rejected scanner (\<open>generateMCPManifest_cli_substitutes\<close>).  The module's copy
  passes the scanners to \<open>Promise.all\<close> bare: in a directory where the \<open>Project\<close> cannot be
  constructed, the Schema Scanner returns its descriptor and the run as a whole is rejected.
\<close>

theorem scanner_failure_aborts_module_run:
  "extractTools brokenProjectWorld = Inl (Thrown ''Cannot construct Project'')
   \<and> extractResources brokenProjectWorld = Inr [usersResource ''mysql'']
   \<and> generateMCPManifest brokenProjectWorld = Rejected (Thrown ''Cannot construct Project'')"
  by code_simp

lemma scanner_failure_absorbed_by_cli:
  "(case generateMCPManifest_cli brokenProjectWorld of
      Returned m \<Rightarrow> m_tools m = [] \<and> m_resources m = [resourceEntry (usersResource ''mysql'')]
    | Rejected e \<Rightarrow> False
    | Exited n \<Rightarrow> False)"
  by code_simp

end
